theory Spec2Isabelle
  imports Main "HOL-Library.Multiset" "HOL-Library.Log_Nat"
begin

section \<open>The in-memory store of \<^verbatim>\<open>server/storage.ts\<close>\<close>

text \<open>
  \<^verbatim>\<open>MemStorage\<close> keeps nine tables, each a JavaScript \<^verbatim>\<open>Map<number, Row>\<close>, and one
  counter per table in \<^verbatim>\<open>currentIds\<close>. Every method is declared \<^verbatim>\<open>async\<close> but never
  suspends, so a method is modelled as a function from the store to its result and the
  store it leaves behind.

  Numbers: ids, foreign keys, counts and years are JavaScript numbers holding integers;
  they are modelled as \<open>int\<close>. The counter's \<^verbatim>\<open>++\<close> is exact below \<open>2^53\<close>, which no
  run reaches. A \<^verbatim>\<open>Date\<close> is modelled by its time value, the milliseconds since the epoch.
\<close>

subsection \<open>A JavaScript Map from numbers to rows\<close>

text \<open>
  A \<^verbatim>\<open>Map\<close> iterates in insertion order, \<^verbatim>\<open>set\<close> on a key that is present replaces the
  value where it stands, \<^verbatim>\<open>set\<close> on a new key appends, and \<^verbatim>\<open>delete\<close> removes the entry
  and says whether there was one. The order is what \<^verbatim>\<open>Array.from(map.values())\<close> and so
  \<^verbatim>\<open>find\<close>, \<^verbatim>\<open>filter\<close> and \<^verbatim>\<open>sort\<close> see, hence an association list.
\<close>

type_synonym 'v js_map = "(int \<times> 'v) list"

definition map_get :: "'v js_map \<Rightarrow> int \<Rightarrow> 'v option" where
  "map_get m k = map_of m k"

definition map_has :: "'v js_map \<Rightarrow> int \<Rightarrow> bool" where
  "map_has m k = (k \<in> set (map fst m))"

fun map_set :: "int \<Rightarrow> 'v \<Rightarrow> 'v js_map \<Rightarrow> 'v js_map" where
  "map_set k v [] = [(k, v)]"
| "map_set k v (e # m) = (if fst e = k then (k, v) # m else e # map_set k v m)"

definition map_delete :: "int \<Rightarrow> 'v js_map \<Rightarrow> 'v js_map" where
  "map_delete k m = filter (\<lambda>e. fst e \<noteq> k) m"

definition map_values :: "'v js_map \<Rightarrow> 'v list" where
  "map_values m = map snd m"

definition map_keys :: "'v js_map \<Rightarrow> int list" where
  "map_keys m = map fst m"

text \<open>
  What a table of a running store satisfies: its keys are pairwise distinct (it is a
  \<^verbatim>\<open>Map\<close>) and every key was handed out by the counter, so it lies below the counter's
  present value \<open>n\<close>.
\<close>

definition table_ok :: "'v js_map \<Rightarrow> int \<Rightarrow> bool" where
  "table_ok m n = (distinct (map_keys m) \<and> list_all (\<lambda>k. k < n) (map_keys m))"

subsection \<open>The rows (\<^verbatim>\<open>shared/schema.ts\<close>)\<close>

text \<open>
  Each \<^verbatim>\<open>InsertX\<close> type is the row type without its \<^verbatim>\<open>id\<close>, and the row type adds the
  \<^verbatim>\<open>id\<close>: the records below extend one another the same way. A nullable column is an
  \<open>option\<close>. Field names carry the table's name, since HOL records share one name space.
\<close>

record InsertUser =
  user_username :: string
  user_password :: string
  user_email :: string
  user_role :: string
  user_name :: string
  user_profileImage :: "string option"

record User = InsertUser +
  user_id :: int

record InsertStudent =
  student_userId :: int
  student_studentId :: string
  student_program :: string
  student_yearLevel :: int
  student_status :: string
  student_enrollmentDate :: int

record Student = InsertStudent +
  student_id :: int

record InsertFaculty =
  faculty_userId :: int
  faculty_facultyId :: string
  faculty_department :: string
  faculty_position :: string
  faculty_joinDate :: int
  faculty_status :: string

record Faculty = InsertFaculty +
  faculty_id :: int

record InsertCourse =
  course_code :: string
  course_title :: string
  course_description :: "string option"
  course_credits :: int
  course_department :: string
  course_status :: string

record Course = InsertCourse +
  course_id :: int

record InsertCourseAssignment =
  assignment_courseId :: int
  assignment_facultyId :: int
  assignment_semester :: string
  assignment_year :: int

record CourseAssignment = InsertCourseAssignment +
  assignment_id :: int

record InsertEnrollment =
  enrollment_studentId :: int
  enrollment_courseAssignmentId :: int
  enrollment_enrollmentDate :: int
  enrollment_status :: string

record Enrollment = InsertEnrollment +
  enrollment_id :: int

record InsertAttendance =
  attendance_enrollmentId :: int
  attendance_date :: int
  attendance_status :: string
  attendance_notes :: "string option"

record Attendance = InsertAttendance +
  attendance_id :: int

record InsertGrade =
  grade_enrollmentId :: int
  grade_assignmentName :: string
  grade_score :: int
  grade_maxScore :: int
  grade_weight :: int
  grade_date :: int

record Grade = InsertGrade +
  grade_id :: int

record InsertEvent =
  event_title :: string
  event_description :: "string option"
  event_startDate :: int
  event_endDate :: int
  event_location :: "string option"
  event_type :: string

record Event = InsertEvent +
  event_id :: int


text \<open>
  \<^verbatim>\<open>Partial<Row>\<close>: every field of the row, the \<^verbatim>\<open>id\<close> included, may be supplied
  (\<open>Some\<close>) or left out (\<open>None\<close>).
\<close>

record PartialUser =
  upd_user_id :: "int option"
  upd_user_username :: "string option"
  upd_user_password :: "string option"
  upd_user_email :: "string option"
  upd_user_role :: "string option"
  upd_user_name :: "string option"
  upd_user_profileImage :: "string option option"

record PartialStudent =
  upd_student_id :: "int option"
  upd_student_userId :: "int option"
  upd_student_studentId :: "string option"
  upd_student_program :: "string option"
  upd_student_yearLevel :: "int option"
  upd_student_status :: "string option"
  upd_student_enrollmentDate :: "int option"

record PartialFaculty =
  upd_faculty_id :: "int option"
  upd_faculty_userId :: "int option"
  upd_faculty_facultyId :: "string option"
  upd_faculty_department :: "string option"
  upd_faculty_position :: "string option"
  upd_faculty_joinDate :: "int option"
  upd_faculty_status :: "string option"

record PartialCourse =
  upd_course_id :: "int option"
  upd_course_code :: "string option"
  upd_course_title :: "string option"
  upd_course_description :: "string option option"
  upd_course_credits :: "int option"
  upd_course_department :: "string option"
  upd_course_status :: "string option"

record PartialCourseAssignment =
  upd_assignment_id :: "int option"
  upd_assignment_courseId :: "int option"
  upd_assignment_facultyId :: "int option"
  upd_assignment_semester :: "string option"
  upd_assignment_year :: "int option"

record PartialEnrollment =
  upd_enrollment_id :: "int option"
  upd_enrollment_studentId :: "int option"
  upd_enrollment_courseAssignmentId :: "int option"
  upd_enrollment_enrollmentDate :: "int option"
  upd_enrollment_status :: "string option"

record PartialAttendance =
  upd_attendance_id :: "int option"
  upd_attendance_enrollmentId :: "int option"
  upd_attendance_date :: "int option"
  upd_attendance_status :: "string option"
  upd_attendance_notes :: "string option option"

record PartialGrade =
  upd_grade_id :: "int option"
  upd_grade_enrollmentId :: "int option"
  upd_grade_assignmentName :: "string option"
  upd_grade_score :: "int option"
  upd_grade_maxScore :: "int option"
  upd_grade_weight :: "int option"
  upd_grade_date :: "int option"

record PartialEvent =
  upd_event_id :: "int option"
  upd_event_title :: "string option"
  upd_event_description :: "string option option"
  upd_event_startDate :: "int option"
  upd_event_endDate :: "int option"
  upd_event_location :: "string option option"
  upd_event_type :: "string option"

subsection \<open>The store\<close>

record CurrentIds =
  ids_user :: int
  ids_student :: int
  ids_faculty :: int
  ids_course :: int
  ids_courseAssignment :: int
  ids_enrollment :: int
  ids_attendance :: int
  ids_grade :: int
  ids_event :: int

record MemStorage =
  users :: "User js_map"
  students :: "Student js_map"
  faculty :: "Faculty js_map"
  courses :: "Course js_map"
  courseAssignments :: "CourseAssignment js_map"
  enrollments :: "Enrollment js_map"
  attendance :: "Attendance js_map"
  grades :: "Grade js_map"
  events :: "Event js_map"
  currentIds :: CurrentIds

text \<open>The constructor, before it seeds the sample rows: empty maps, counters at 1.\<close>

definition emptyStorage :: MemStorage where
  "emptyStorage =
     \<lparr>users = [], students = [], faculty = [], courses = [], courseAssignments = [],
      enrollments = [], attendance = [], grades = [], events = [],
      currentIds = \<lparr>ids_user = 1, ids_student = 1, ids_faculty = 1, ids_course = 1,
        ids_courseAssignment = 1, ids_enrollment = 1, ids_attendance = 1, ids_grade = 1,
        ids_event = 1\<rparr>\<rparr>"

text \<open>
  \<^verbatim>\<open>{ ...row, ...data }\<close>: a field that \<^verbatim>\<open>data\<close> supplies replaces the row's, every other
  field keeps the row's value.
\<close>

definition spread :: "'a \<Rightarrow> 'a option \<Rightarrow> 'a" where
  "spread old new = (case new of None \<Rightarrow> old | Some v \<Rightarrow> v)"

subsection \<open>Create, read, update and delete, table by table\<close>

text \<open>
  The nine tables have the same five methods. \<^verbatim>\<open>create\<close> reads the counter, bumps it,
  builds \<^verbatim>\<open>{ ...row, id }\<close> and stores it under the id. \<^verbatim>\<open>update\<close> returns \<^verbatim>\<open>undefined\<close>
  (\<open>None\<close>) when the key is absent and otherwise stores \<^verbatim>\<open>{ ...row, ...data }\<close> under
  the same key. \<^verbatim>\<open>delete\<close> is \<^verbatim>\<open>Map.delete\<close>.
\<close>

paragraph \<open>User operations\<close>

definition getUser :: "MemStorage \<Rightarrow> int \<Rightarrow> User option" where
  "getUser s id' = map_get (users s) id'"

definition createUser :: "InsertUser \<Rightarrow> MemStorage \<Rightarrow> User \<times> MemStorage" where
  "createUser user s =
     (let id' = ids_user (currentIds s);
          s1 = s\<lparr>currentIds := (currentIds s)\<lparr>ids_user := id' + 1\<rparr>\<rparr>;
          newUser = InsertUser.extend user (User.fields id')
      in (newUser, s1\<lparr>users := map_set id' newUser (users s1)\<rparr>))"

definition mergeUser :: "User \<Rightarrow> PartialUser \<Rightarrow> User" where
  "mergeUser user data =
     \<lparr>user_username = spread (user_username user) (upd_user_username data),
      user_password = spread (user_password user) (upd_user_password data),
      user_email = spread (user_email user) (upd_user_email data),
      user_role = spread (user_role user) (upd_user_role data),
      user_name = spread (user_name user) (upd_user_name data),
      user_profileImage = spread (user_profileImage user) (upd_user_profileImage data),
      user_id = spread (user_id user) (upd_user_id data)\<rparr>"

definition updateUser :: "int \<Rightarrow> PartialUser \<Rightarrow> MemStorage \<Rightarrow> User option \<times> MemStorage" where
  "updateUser id' data s =
     (case map_get (users s) id' of
        None \<Rightarrow> (None, s)
      | Some user \<Rightarrow>
          (let updatedUser = mergeUser user data
           in (Some updatedUser, s\<lparr>users := map_set id' updatedUser (users s)\<rparr>)))"

definition deleteUser :: "int \<Rightarrow> MemStorage \<Rightarrow> bool \<times> MemStorage" where
  "deleteUser id' s = (map_has (users s) id', s\<lparr>users := map_delete id' (users s)\<rparr>)"

definition getAllUsers :: "MemStorage \<Rightarrow> User list" where
  "getAllUsers s = map_values (users s)"

paragraph \<open>Student operations\<close>

definition getStudent :: "MemStorage \<Rightarrow> int \<Rightarrow> Student option" where
  "getStudent s id' = map_get (students s) id'"

definition createStudent :: "InsertStudent \<Rightarrow> MemStorage \<Rightarrow> Student \<times> MemStorage" where
  "createStudent student s =
     (let id' = ids_student (currentIds s);
          s1 = s\<lparr>currentIds := (currentIds s)\<lparr>ids_student := id' + 1\<rparr>\<rparr>;
          newStudent = InsertStudent.extend student (Student.fields id')
      in (newStudent, s1\<lparr>students := map_set id' newStudent (students s1)\<rparr>))"

definition mergeStudent :: "Student \<Rightarrow> PartialStudent \<Rightarrow> Student" where
  "mergeStudent student data =
     \<lparr>student_userId = spread (student_userId student) (upd_student_userId data),
      student_studentId = spread (student_studentId student) (upd_student_studentId data),
      student_program = spread (student_program student) (upd_student_program data),
      student_yearLevel = spread (student_yearLevel student) (upd_student_yearLevel data),
      student_status = spread (student_status student) (upd_student_status data),
      student_enrollmentDate = spread (student_enrollmentDate student) (upd_student_enrollmentDate data),
      student_id = spread (student_id student) (upd_student_id data)\<rparr>"

definition updateStudent :: "int \<Rightarrow> PartialStudent \<Rightarrow> MemStorage \<Rightarrow> Student option \<times> MemStorage" where
  "updateStudent id' data s =
     (case map_get (students s) id' of
        None \<Rightarrow> (None, s)
      | Some student \<Rightarrow>
          (let updatedStudent = mergeStudent student data
           in (Some updatedStudent, s\<lparr>students := map_set id' updatedStudent (students s)\<rparr>)))"

definition deleteStudent :: "int \<Rightarrow> MemStorage \<Rightarrow> bool \<times> MemStorage" where
  "deleteStudent id' s = (map_has (students s) id', s\<lparr>students := map_delete id' (students s)\<rparr>)"

definition getAllStudents :: "MemStorage \<Rightarrow> Student list" where
  "getAllStudents s = map_values (students s)"

paragraph \<open>Faculty operations\<close>

definition getFaculty :: "MemStorage \<Rightarrow> int \<Rightarrow> Faculty option" where
  "getFaculty s id' = map_get (faculty s) id'"

definition createFaculty :: "InsertFaculty \<Rightarrow> MemStorage \<Rightarrow> Faculty \<times> MemStorage" where
  "createFaculty faculty' s =
     (let id' = ids_faculty (currentIds s);
          s1 = s\<lparr>currentIds := (currentIds s)\<lparr>ids_faculty := id' + 1\<rparr>\<rparr>;
          newFaculty = InsertFaculty.extend faculty' (Faculty.fields id')
      in (newFaculty, s1\<lparr>faculty := map_set id' newFaculty (faculty s1)\<rparr>))"

definition mergeFaculty :: "Faculty \<Rightarrow> PartialFaculty \<Rightarrow> Faculty" where
  "mergeFaculty faculty' data =
     \<lparr>faculty_userId = spread (faculty_userId faculty') (upd_faculty_userId data),
      faculty_facultyId = spread (faculty_facultyId faculty') (upd_faculty_facultyId data),
      faculty_department = spread (faculty_department faculty') (upd_faculty_department data),
      faculty_position = spread (faculty_position faculty') (upd_faculty_position data),
      faculty_joinDate = spread (faculty_joinDate faculty') (upd_faculty_joinDate data),
      faculty_status = spread (faculty_status faculty') (upd_faculty_status data),
      faculty_id = spread (faculty_id faculty') (upd_faculty_id data)\<rparr>"

definition updateFaculty :: "int \<Rightarrow> PartialFaculty \<Rightarrow> MemStorage \<Rightarrow> Faculty option \<times> MemStorage" where
  "updateFaculty id' data s =
     (case map_get (faculty s) id' of
        None \<Rightarrow> (None, s)
      | Some faculty' \<Rightarrow>
          (let updatedFaculty = mergeFaculty faculty' data
           in (Some updatedFaculty, s\<lparr>faculty := map_set id' updatedFaculty (faculty s)\<rparr>)))"

definition deleteFaculty :: "int \<Rightarrow> MemStorage \<Rightarrow> bool \<times> MemStorage" where
  "deleteFaculty id' s = (map_has (faculty s) id', s\<lparr>faculty := map_delete id' (faculty s)\<rparr>)"

definition getAllFaculty :: "MemStorage \<Rightarrow> Faculty list" where
  "getAllFaculty s = map_values (faculty s)"

paragraph \<open>Course operations\<close>

definition getCourse :: "MemStorage \<Rightarrow> int \<Rightarrow> Course option" where
  "getCourse s id' = map_get (courses s) id'"

definition createCourse :: "InsertCourse \<Rightarrow> MemStorage \<Rightarrow> Course \<times> MemStorage" where
  "createCourse course s =
     (let id' = ids_course (currentIds s);
          s1 = s\<lparr>currentIds := (currentIds s)\<lparr>ids_course := id' + 1\<rparr>\<rparr>;
          newCourse = InsertCourse.extend course (Course.fields id')
      in (newCourse, s1\<lparr>courses := map_set id' newCourse (courses s1)\<rparr>))"

definition mergeCourse :: "Course \<Rightarrow> PartialCourse \<Rightarrow> Course" where
  "mergeCourse course data =
     \<lparr>course_code = spread (course_code course) (upd_course_code data),
      course_title = spread (course_title course) (upd_course_title data),
      course_description = spread (course_description course) (upd_course_description data),
      course_credits = spread (course_credits course) (upd_course_credits data),
      course_department = spread (course_department course) (upd_course_department data),
      course_status = spread (course_status course) (upd_course_status data),
      course_id = spread (course_id course) (upd_course_id data)\<rparr>"

definition updateCourse :: "int \<Rightarrow> PartialCourse \<Rightarrow> MemStorage \<Rightarrow> Course option \<times> MemStorage" where
  "updateCourse id' data s =
     (case map_get (courses s) id' of
        None \<Rightarrow> (None, s)
      | Some course \<Rightarrow>
          (let updatedCourse = mergeCourse course data
           in (Some updatedCourse, s\<lparr>courses := map_set id' updatedCourse (courses s)\<rparr>)))"

definition deleteCourse :: "int \<Rightarrow> MemStorage \<Rightarrow> bool \<times> MemStorage" where
  "deleteCourse id' s = (map_has (courses s) id', s\<lparr>courses := map_delete id' (courses s)\<rparr>)"

definition getAllCourses :: "MemStorage \<Rightarrow> Course list" where
  "getAllCourses s = map_values (courses s)"

paragraph \<open>CourseAssignment operations\<close>

definition getCourseAssignment :: "MemStorage \<Rightarrow> int \<Rightarrow> CourseAssignment option" where
  "getCourseAssignment s id' = map_get (courseAssignments s) id'"

definition createCourseAssignment :: "InsertCourseAssignment \<Rightarrow> MemStorage \<Rightarrow> CourseAssignment \<times> MemStorage" where
  "createCourseAssignment assignment s =
     (let id' = ids_courseAssignment (currentIds s);
          s1 = s\<lparr>currentIds := (currentIds s)\<lparr>ids_courseAssignment := id' + 1\<rparr>\<rparr>;
          newCourseAssignment = InsertCourseAssignment.extend assignment (CourseAssignment.fields id')
      in (newCourseAssignment, s1\<lparr>courseAssignments := map_set id' newCourseAssignment (courseAssignments s1)\<rparr>))"

definition mergeCourseAssignment :: "CourseAssignment \<Rightarrow> PartialCourseAssignment \<Rightarrow> CourseAssignment" where
  "mergeCourseAssignment assignment data =
     \<lparr>assignment_courseId = spread (assignment_courseId assignment) (upd_assignment_courseId data),
      assignment_facultyId = spread (assignment_facultyId assignment) (upd_assignment_facultyId data),
      assignment_semester = spread (assignment_semester assignment) (upd_assignment_semester data),
      assignment_year = spread (assignment_year assignment) (upd_assignment_year data),
      assignment_id = spread (assignment_id assignment) (upd_assignment_id data)\<rparr>"

definition updateCourseAssignment :: "int \<Rightarrow> PartialCourseAssignment \<Rightarrow> MemStorage \<Rightarrow> CourseAssignment option \<times> MemStorage" where
  "updateCourseAssignment id' data s =
     (case map_get (courseAssignments s) id' of
        None \<Rightarrow> (None, s)
      | Some assignment \<Rightarrow>
          (let updatedCourseAssignment = mergeCourseAssignment assignment data
           in (Some updatedCourseAssignment, s\<lparr>courseAssignments := map_set id' updatedCourseAssignment (courseAssignments s)\<rparr>)))"

definition deleteCourseAssignment :: "int \<Rightarrow> MemStorage \<Rightarrow> bool \<times> MemStorage" where
  "deleteCourseAssignment id' s = (map_has (courseAssignments s) id', s\<lparr>courseAssignments := map_delete id' (courseAssignments s)\<rparr>)"

definition getAllCourseAssignments :: "MemStorage \<Rightarrow> CourseAssignment list" where
  "getAllCourseAssignments s = map_values (courseAssignments s)"

paragraph \<open>Enrollment operations\<close>

definition getEnrollment :: "MemStorage \<Rightarrow> int \<Rightarrow> Enrollment option" where
  "getEnrollment s id' = map_get (enrollments s) id'"

definition createEnrollment :: "InsertEnrollment \<Rightarrow> MemStorage \<Rightarrow> Enrollment \<times> MemStorage" where
  "createEnrollment enrollment s =
     (let id' = ids_enrollment (currentIds s);
          s1 = s\<lparr>currentIds := (currentIds s)\<lparr>ids_enrollment := id' + 1\<rparr>\<rparr>;
          newEnrollment = InsertEnrollment.extend enrollment (Enrollment.fields id')
      in (newEnrollment, s1\<lparr>enrollments := map_set id' newEnrollment (enrollments s1)\<rparr>))"

definition mergeEnrollment :: "Enrollment \<Rightarrow> PartialEnrollment \<Rightarrow> Enrollment" where
  "mergeEnrollment enrollment data =
     \<lparr>enrollment_studentId = spread (enrollment_studentId enrollment) (upd_enrollment_studentId data),
      enrollment_courseAssignmentId = spread (enrollment_courseAssignmentId enrollment) (upd_enrollment_courseAssignmentId data),
      enrollment_enrollmentDate = spread (enrollment_enrollmentDate enrollment) (upd_enrollment_enrollmentDate data),
      enrollment_status = spread (enrollment_status enrollment) (upd_enrollment_status data),
      enrollment_id = spread (enrollment_id enrollment) (upd_enrollment_id data)\<rparr>"

definition updateEnrollment :: "int \<Rightarrow> PartialEnrollment \<Rightarrow> MemStorage \<Rightarrow> Enrollment option \<times> MemStorage" where
  "updateEnrollment id' data s =
     (case map_get (enrollments s) id' of
        None \<Rightarrow> (None, s)
      | Some enrollment \<Rightarrow>
          (let updatedEnrollment = mergeEnrollment enrollment data
           in (Some updatedEnrollment, s\<lparr>enrollments := map_set id' updatedEnrollment (enrollments s)\<rparr>)))"

definition deleteEnrollment :: "int \<Rightarrow> MemStorage \<Rightarrow> bool \<times> MemStorage" where
  "deleteEnrollment id' s = (map_has (enrollments s) id', s\<lparr>enrollments := map_delete id' (enrollments s)\<rparr>)"

definition getAllEnrollments :: "MemStorage \<Rightarrow> Enrollment list" where
  "getAllEnrollments s = map_values (enrollments s)"

paragraph \<open>Attendance operations\<close>

definition getAttendance :: "MemStorage \<Rightarrow> int \<Rightarrow> Attendance option" where
  "getAttendance s id' = map_get (attendance s) id'"

definition createAttendance :: "InsertAttendance \<Rightarrow> MemStorage \<Rightarrow> Attendance \<times> MemStorage" where
  "createAttendance attendance' s =
     (let id' = ids_attendance (currentIds s);
          s1 = s\<lparr>currentIds := (currentIds s)\<lparr>ids_attendance := id' + 1\<rparr>\<rparr>;
          newAttendance = InsertAttendance.extend attendance' (Attendance.fields id')
      in (newAttendance, s1\<lparr>attendance := map_set id' newAttendance (attendance s1)\<rparr>))"

definition mergeAttendance :: "Attendance \<Rightarrow> PartialAttendance \<Rightarrow> Attendance" where
  "mergeAttendance attendance' data =
     \<lparr>attendance_enrollmentId = spread (attendance_enrollmentId attendance') (upd_attendance_enrollmentId data),
      attendance_date = spread (attendance_date attendance') (upd_attendance_date data),
      attendance_status = spread (attendance_status attendance') (upd_attendance_status data),
      attendance_notes = spread (attendance_notes attendance') (upd_attendance_notes data),
      attendance_id = spread (attendance_id attendance') (upd_attendance_id data)\<rparr>"

definition updateAttendance :: "int \<Rightarrow> PartialAttendance \<Rightarrow> MemStorage \<Rightarrow> Attendance option \<times> MemStorage" where
  "updateAttendance id' data s =
     (case map_get (attendance s) id' of
        None \<Rightarrow> (None, s)
      | Some attendance' \<Rightarrow>
          (let updatedAttendance = mergeAttendance attendance' data
           in (Some updatedAttendance, s\<lparr>attendance := map_set id' updatedAttendance (attendance s)\<rparr>)))"

definition deleteAttendance :: "int \<Rightarrow> MemStorage \<Rightarrow> bool \<times> MemStorage" where
  "deleteAttendance id' s = (map_has (attendance s) id', s\<lparr>attendance := map_delete id' (attendance s)\<rparr>)"

definition getAllAttendance :: "MemStorage \<Rightarrow> Attendance list" where
  "getAllAttendance s = map_values (attendance s)"

paragraph \<open>Grade operations\<close>

definition getGrade :: "MemStorage \<Rightarrow> int \<Rightarrow> Grade option" where
  "getGrade s id' = map_get (grades s) id'"

definition createGrade :: "InsertGrade \<Rightarrow> MemStorage \<Rightarrow> Grade \<times> MemStorage" where
  "createGrade grade s =
     (let id' = ids_grade (currentIds s);
          s1 = s\<lparr>currentIds := (currentIds s)\<lparr>ids_grade := id' + 1\<rparr>\<rparr>;
          newGrade = InsertGrade.extend grade (Grade.fields id')
      in (newGrade, s1\<lparr>grades := map_set id' newGrade (grades s1)\<rparr>))"

definition mergeGrade :: "Grade \<Rightarrow> PartialGrade \<Rightarrow> Grade" where
  "mergeGrade grade data =
     \<lparr>grade_enrollmentId = spread (grade_enrollmentId grade) (upd_grade_enrollmentId data),
      grade_assignmentName = spread (grade_assignmentName grade) (upd_grade_assignmentName data),
      grade_score = spread (grade_score grade) (upd_grade_score data),
      grade_maxScore = spread (grade_maxScore grade) (upd_grade_maxScore data),
      grade_weight = spread (grade_weight grade) (upd_grade_weight data),
      grade_date = spread (grade_date grade) (upd_grade_date data),
      grade_id = spread (grade_id grade) (upd_grade_id data)\<rparr>"

definition updateGrade :: "int \<Rightarrow> PartialGrade \<Rightarrow> MemStorage \<Rightarrow> Grade option \<times> MemStorage" where
  "updateGrade id' data s =
     (case map_get (grades s) id' of
        None \<Rightarrow> (None, s)
      | Some grade \<Rightarrow>
          (let updatedGrade = mergeGrade grade data
           in (Some updatedGrade, s\<lparr>grades := map_set id' updatedGrade (grades s)\<rparr>)))"

definition deleteGrade :: "int \<Rightarrow> MemStorage \<Rightarrow> bool \<times> MemStorage" where
  "deleteGrade id' s = (map_has (grades s) id', s\<lparr>grades := map_delete id' (grades s)\<rparr>)"

definition getAllGrades :: "MemStorage \<Rightarrow> Grade list" where
  "getAllGrades s = map_values (grades s)"

paragraph \<open>Event operations\<close>

definition getEvent :: "MemStorage \<Rightarrow> int \<Rightarrow> Event option" where
  "getEvent s id' = map_get (events s) id'"

definition createEvent :: "InsertEvent \<Rightarrow> MemStorage \<Rightarrow> Event \<times> MemStorage" where
  "createEvent event s =
     (let id' = ids_event (currentIds s);
          s1 = s\<lparr>currentIds := (currentIds s)\<lparr>ids_event := id' + 1\<rparr>\<rparr>;
          newEvent = InsertEvent.extend event (Event.fields id')
      in (newEvent, s1\<lparr>events := map_set id' newEvent (events s1)\<rparr>))"

definition mergeEvent :: "Event \<Rightarrow> PartialEvent \<Rightarrow> Event" where
  "mergeEvent event data =
     \<lparr>event_title = spread (event_title event) (upd_event_title data),
      event_description = spread (event_description event) (upd_event_description data),
      event_startDate = spread (event_startDate event) (upd_event_startDate data),
      event_endDate = spread (event_endDate event) (upd_event_endDate data),
      event_location = spread (event_location event) (upd_event_location data),
      event_type = spread (event_type event) (upd_event_type data),
      event_id = spread (event_id event) (upd_event_id data)\<rparr>"

definition updateEvent :: "int \<Rightarrow> PartialEvent \<Rightarrow> MemStorage \<Rightarrow> Event option \<times> MemStorage" where
  "updateEvent id' data s =
     (case map_get (events s) id' of
        None \<Rightarrow> (None, s)
      | Some event \<Rightarrow>
          (let updatedEvent = mergeEvent event data
           in (Some updatedEvent, s\<lparr>events := map_set id' updatedEvent (events s)\<rparr>)))"

definition deleteEvent :: "int \<Rightarrow> MemStorage \<Rightarrow> bool \<times> MemStorage" where
  "deleteEvent id' s = (map_has (events s) id', s\<lparr>events := map_delete id' (events s)\<rparr>)"

definition getAllEvents :: "MemStorage \<Rightarrow> Event list" where
  "getAllEvents s = map_values (events s)"

subsection \<open>Lookups by a secondary key and by a foreign key\<close>





definition getStudentByStudentId :: "MemStorage \<Rightarrow> string \<Rightarrow> Student option" where
  "getStudentByStudentId s studentId =
     find (\<lambda>student. student_studentId student = studentId) (map_values (students s))"

definition getStudentByUserId :: "MemStorage \<Rightarrow> int \<Rightarrow> Student option" where
  "getStudentByUserId s userId =
     find (\<lambda>student. student_userId student = userId) (map_values (students s))"

definition getFacultyByFacultyId :: "MemStorage \<Rightarrow> string \<Rightarrow> Faculty option" where
  "getFacultyByFacultyId s facultyId =
     find (\<lambda>f. faculty_facultyId f = facultyId) (map_values (faculty s))"

definition getFacultyByUserId :: "MemStorage \<Rightarrow> int \<Rightarrow> Faculty option" where
  "getFacultyByUserId s userId =
     find (\<lambda>f. faculty_userId f = userId) (map_values (faculty s))"

definition getCourseByCode :: "MemStorage \<Rightarrow> string \<Rightarrow> Course option" where
  "getCourseByCode s code = find (\<lambda>course. course_code course = code) (map_values (courses s))"


definition getCourseAssignmentsByFaculty :: "MemStorage \<Rightarrow> int \<Rightarrow> CourseAssignment list" where
  "getCourseAssignmentsByFaculty s facultyId =
     filter (\<lambda>assignment. assignment_facultyId assignment = facultyId)
       (map_values (courseAssignments s))"





subsection \<open>\<^verbatim>\<open>getStudentDetails\<close>\<close>





subsection \<open>\<^verbatim>\<open>Array.prototype.sort\<close> with a comparator\<close>

text \<open>
  \<^verbatim>\<open>sort(cmp)\<close> is stable: it orders by the sign of \<^verbatim>\<open>cmp(a, b)\<close> and keeps elements
  that compare equal in the order they came. Insertion from the right does exactly that:
  an element goes in front of the first element it does not exceed.
\<close>

fun insert_cmp :: "('a \<Rightarrow> 'a \<Rightarrow> int) \<Rightarrow> 'a \<Rightarrow> 'a list \<Rightarrow> 'a list" where
  "insert_cmp cmp x [] = [x]"
| "insert_cmp cmp x (y # ys) = (if cmp x y \<le> 0 then x # y # ys else y # insert_cmp cmp x ys)"

fun sort_cmp :: "('a \<Rightarrow> 'a \<Rightarrow> int) \<Rightarrow> 'a list \<Rightarrow> 'a list" where
  "sort_cmp cmp [] = []"
| "sort_cmp cmp (x # xs) = insert_cmp cmp x (sort_cmp cmp xs)"

subsection \<open>\<^verbatim>\<open>getUpcomingEvents\<close>\<close>

text \<open>\<^verbatim>\<open>new Date()\<close> reads the clock; its time value is the parameter \<open>now\<close>.\<close>

definition getUpcomingEvents :: "int \<Rightarrow> MemStorage \<Rightarrow> Event list" where
  "getUpcomingEvents now s =
     sort_cmp (\<lambda>a b. event_startDate a - event_startDate b)
       (filter (\<lambda>event. event_startDate event > now) (map_values (events s)))"

subsection \<open>\<^verbatim>\<open>getDashboardStats\<close>: the popular courses\<close>






subsection \<open>\<^verbatim>\<open>getDashboardStats\<close>: the rates, in double precision\<close>

text \<open>
  The rates are JavaScript numbers that are not integers, so the arithmetic is IEEE 754
  binary64 with round to nearest, ties to even. A finite double is modelled by a pair
  \<open>(m, e)\<close> that stands for \<open>m * 2^e\<close>. The values met here lie between \<open>2^-32\<close> and
  \<open>100\<close>, far from overflow and from the subnormal range, so the exponent is left
  unbounded and the significand always has 53 bits.
\<close>

type_synonym double = "int \<times> int"


text \<open>The integer nearest to \<open>a / b\<close> for \<open>0 \<le> a\<close> and \<open>0 < b\<close>, the even one at a tie.\<close>

definition round_half_even :: "int \<Rightarrow> int \<Rightarrow> int" where
  "round_half_even a b =
     (let q = a div b; r = a mod b
      in if 2 * r < b then q
         else if 2 * r > b then q + 1
         else if even q then q else q + 1)"

text \<open>
  The double nearest to \<open>a / b\<close> for \<open>0 \<le> a\<close> and \<open>0 < b\<close>: with \<open>2^e \<le> a / b < 2^(e+1)\<close>
  the quotient is scaled by \<open>2^(52 - e)\<close> into \<open>[2^52, 2^53)\<close> and rounded to an integer.
  The exponent \<open>e\<close> is the difference \<open>d\<close> of the bit lengths or one less.
\<close>

definition binade :: "int \<Rightarrow> int \<Rightarrow> int" where
  "binade a b =
     (let d = bitlen a - bitlen b
      in if b * 2 ^ nat d \<le> a * 2 ^ nat (- d) then d else d - 1)"

definition to_double :: "int \<Rightarrow> int \<Rightarrow> double" where
  "to_double a b =
     (if a = 0 then (0, 0)
      else (let e = binade a b; sh = 52 - e
            in (round_half_even (a * 2 ^ nat sh) (b * 2 ^ nat (- sh)), e - 52)))"

text \<open>
  \<^verbatim>\<open>x / y\<close> on two counts (integers below \<open>2^53\<close> are doubles themselves), \<^verbatim>\<open>x * k\<close> of
  a double by an integer, \<^verbatim>\<open>x.toFixed(1)\<close> and \<^verbatim>\<open>parseFloat\<close> of its result.
  \<^verbatim>\<open>toFixed(1)\<close> takes the integer \<open>n\<close> with \<open>n / 10\<close> nearest to the double, the larger one
  at a tie, and prints \<open>n / 10\<close> with one decimal; it is modelled by \<open>n\<close>. \<^verbatim>\<open>parseFloat\<close>
  then reads the decimal back as the nearest double.
\<close>

definition js_divide :: "nat \<Rightarrow> nat \<Rightarrow> double" where
  "js_divide x y = to_double (int x) (int y)"

definition js_times :: "double \<Rightarrow> int \<Rightarrow> double" where
  "js_times x k = to_double (fst x * k * 2 ^ nat (snd x)) (2 ^ nat (- snd x))"

definition toFixed1 :: "double \<Rightarrow> int" where
  "toFixed1 x =
     (let num = fst x * 2 ^ nat (snd x); den = 2 ^ nat (- snd x)
      in (20 * num + den) div (2 * den))"


text \<open>\<^verbatim>\<open>total > 0 ? (part / total) * 100 : 0\<close>, the expression of all four rates.\<close>

definition percentage :: "nat \<Rightarrow> nat \<Rightarrow> double" where
  "percentage part total' = (if total' > 0 then js_times (js_divide part total') 100 else (0, 0))"





subsection \<open>Runs of store calls\<close>

text \<open>
  A caller (the HTTP layer) issues creates, updates and deletes on any table in any
  order. \<open>run\<close> performs such a sequence and logs, for every create, the table and the
  \<^verbatim>\<open>id\<close> of the row that the create returned.
\<close>

datatype Entity = EUser | EStudent | EFaculty | ECourse | ECourseAssignment | EEnrollment | EAttendance | EGrade | EEvent

datatype InsertRow =
    InsUser InsertUser
  | InsStudent InsertStudent
  | InsFaculty InsertFaculty
  | InsCourse InsertCourse
  | InsCourseAssignment InsertCourseAssignment
  | InsEnrollment InsertEnrollment
  | InsAttendance InsertAttendance
  | InsGrade InsertGrade
  | InsEvent InsertEvent

datatype PartialRow =
    ParUser PartialUser
  | ParStudent PartialStudent
  | ParFaculty PartialFaculty
  | ParCourse PartialCourse
  | ParCourseAssignment PartialCourseAssignment
  | ParEnrollment PartialEnrollment
  | ParAttendance PartialAttendance
  | ParGrade PartialGrade
  | ParEvent PartialEvent

datatype Op = Create InsertRow | Update int PartialRow | Delete Entity int




fun create :: "InsertRow \<Rightarrow> MemStorage \<Rightarrow> (Entity \<times> int) \<times> MemStorage" where
  "create (InsUser r) s = (let (row, s') = createUser r s in ((EUser, user_id row), s'))"
| "create (InsStudent r) s = (let (row, s') = createStudent r s in ((EStudent, student_id row), s'))"
| "create (InsFaculty r) s = (let (row, s') = createFaculty r s in ((EFaculty, faculty_id row), s'))"
| "create (InsCourse r) s = (let (row, s') = createCourse r s in ((ECourse, course_id row), s'))"
| "create (InsCourseAssignment r) s = (let (row, s') = createCourseAssignment r s in ((ECourseAssignment, assignment_id row), s'))"
| "create (InsEnrollment r) s = (let (row, s') = createEnrollment r s in ((EEnrollment, enrollment_id row), s'))"
| "create (InsAttendance r) s = (let (row, s') = createAttendance r s in ((EAttendance, attendance_id row), s'))"
| "create (InsGrade r) s = (let (row, s') = createGrade r s in ((EGrade, grade_id row), s'))"
| "create (InsEvent r) s = (let (row, s') = createEvent r s in ((EEvent, event_id row), s'))"

fun update :: "int \<Rightarrow> PartialRow \<Rightarrow> MemStorage \<Rightarrow> MemStorage" where
  "update k (ParUser d) s = snd (updateUser k d s)"
| "update k (ParStudent d) s = snd (updateStudent k d s)"
| "update k (ParFaculty d) s = snd (updateFaculty k d s)"
| "update k (ParCourse d) s = snd (updateCourse k d s)"
| "update k (ParCourseAssignment d) s = snd (updateCourseAssignment k d s)"
| "update k (ParEnrollment d) s = snd (updateEnrollment k d s)"
| "update k (ParAttendance d) s = snd (updateAttendance k d s)"
| "update k (ParGrade d) s = snd (updateGrade k d s)"
| "update k (ParEvent d) s = snd (updateEvent k d s)"

fun delete :: "Entity \<Rightarrow> int \<Rightarrow> MemStorage \<Rightarrow> MemStorage" where
  "delete EUser k s = snd (deleteUser k s)"
| "delete EStudent k s = snd (deleteStudent k s)"
| "delete EFaculty k s = snd (deleteFaculty k s)"
| "delete ECourse k s = snd (deleteCourse k s)"
| "delete ECourseAssignment k s = snd (deleteCourseAssignment k s)"
| "delete EEnrollment k s = snd (deleteEnrollment k s)"
| "delete EAttendance k s = snd (deleteAttendance k s)"
| "delete EGrade k s = snd (deleteGrade k s)"
| "delete EEvent k s = snd (deleteEvent k s)"

fun run :: "Op list \<Rightarrow> MemStorage \<Rightarrow> (Entity \<times> int) list \<times> MemStorage" where
  "run [] s = ([], s)"
| "run (Create r # ops) s =
     (let (a, s1) = create r s; (log, s2) = run ops s1 in (a # log, s2))"
| "run (Update k d # ops) s = run ops (update k d s)"
| "run (Delete e k # ops) s = run ops (delete e k s)"



text \<open>Every table of a running store is a proper map whose keys lie below its counter.\<close>

definition wf_store :: "MemStorage \<Rightarrow> bool" where
  "wf_store s =
     (table_ok (users s) (ids_user (currentIds s))
      \<and> table_ok (students s) (ids_student (currentIds s))
      \<and> table_ok (faculty s) (ids_faculty (currentIds s))
      \<and> table_ok (courses s) (ids_course (currentIds s))
      \<and> table_ok (courseAssignments s) (ids_courseAssignment (currentIds s))
      \<and> table_ok (enrollments s) (ids_enrollment (currentIds s))
      \<and> table_ok (attendance s) (ids_attendance (currentIds s))
      \<and> table_ok (grades s) (ids_grade (currentIds s))
      \<and> table_ok (events s) (ids_event (currentIds s)))"

text \<open>Whether every row of a table carries the key it is stored under as its \<^verbatim>\<open>id\<close>.\<close>

definition keyed_by_id :: "('r \<Rightarrow> int) \<Rightarrow> 'r js_map \<Rightarrow> bool" where
  "keyed_by_id id_of m = list_all (\<lambda>e. id_of (snd e) = fst e) m"

subsection \<open>Sample data\<close>



definition adminUser :: InsertUser where
  "adminUser =
     \<lparr>user_username = ''admin'', user_password = ''admin123'',
      user_email = ''admin@college.edu'', user_role = ''admin'', user_name = ''John Admin'',
      user_profileImage = Some ''https://images.example/admin.png''\<rparr>"

definition smithUser :: InsertUser where
  "smithUser =
     \<lparr>user_username = ''professor.smith'', user_password = ''faculty123'',
      user_email = ''smith@college.edu'', user_role = ''faculty'',
      user_name = ''Professor Smith'', user_profileImage = None\<rparr>"

definition emmaUser :: InsertUser where
  "emmaUser =
     \<lparr>user_username = ''emma.wilson'', user_password = ''student123'',
      user_email = ''emma.wilson@example.com'', user_role = ''student'',
      user_name = ''Emma Wilson'', user_profileImage = None\<rparr>"

definition facultyProfile1 :: InsertFaculty where
  "facultyProfile1 =
     \<lparr>faculty_userId = 2, faculty_facultyId = ''FAC1001'',
      faculty_department = ''Computer Science'', faculty_position = ''Professor'',
      faculty_joinDate = 1534291200000, faculty_status = ''active''\<rparr>"

definition studentProfile1 :: InsertStudent where
  "studentProfile1 =
     \<lparr>student_userId = 3, student_studentId = ''STU1001'',
      student_program = ''Computer Science'', student_yearLevel = 3,
      student_status = ''active'', student_enrollmentDate = 1598918400000\<rparr>"

definition course1 :: InsertCourse where
  "course1 =
     \<lparr>course_code = ''CS101'', course_title = ''Introduction to Computer Science'',
      course_description = Some ''Fundamental concepts'', course_credits = 3,
      course_department = ''Computer Science'', course_status = ''active''\<rparr>"

definition assignmentIn :: "int \<Rightarrow> string \<Rightarrow> int \<Rightarrow> InsertCourseAssignment" where
  "assignmentIn courseId semester year =
     \<lparr>assignment_courseId = courseId, assignment_facultyId = 1,
      assignment_semester = semester, assignment_year = year\<rparr>"

definition enrollmentIn :: "int \<Rightarrow> int \<Rightarrow> InsertEnrollment" where
  "enrollmentIn studentId courseAssignmentId =
     \<lparr>enrollment_studentId = studentId, enrollment_courseAssignmentId = courseAssignmentId,
      enrollment_enrollmentDate = 1692057600000, enrollment_status = ''enrolled''\<rparr>"

definition attendanceOf :: "int \<Rightarrow> string \<Rightarrow> InsertAttendance" where
  "attendanceOf enrollmentId status =
     \<lparr>attendance_enrollmentId = enrollmentId, attendance_date = 1697500800000,
      attendance_status = status, attendance_notes = None\<rparr>"

definition grade1 :: InsertGrade where
  "grade1 =
     \<lparr>grade_enrollmentId = 1, grade_assignmentName = ''Midterm Exam'', grade_score = 85,
      grade_maxScore = 100, grade_weight = 30, grade_date = 1697328000000\<rparr>"

definition eventAt :: "string \<Rightarrow> int \<Rightarrow> InsertEvent" where
  "eventAt title startDate =
     \<lparr>event_title = title, event_description = None, event_startDate = startDate,
      event_endDate = startDate + 7200000, event_location = Some ''Admin Building, Room 302'',
      event_type = ''administrative''\<rparr>"

text \<open>
  A small campus: three users (the admin, a professor, a student), the professor's and
  the student's profiles, one course offered in two terms, the student enrolled in both
  offerings, with attendance and a grade, and one event.
\<close>

definition demoOps :: "Op list" where
  "demoOps =
     [Create (InsUser adminUser), Create (InsUser smithUser), Create (InsUser emmaUser),
      Create (InsFaculty facultyProfile1), Create (InsStudent studentProfile1),
      Create (InsCourse course1),
      Create (InsCourseAssignment (assignmentIn 1 ''Fall'' 2023)),
      Create (InsCourseAssignment (assignmentIn 1 ''Spring'' 2024)),
      Create (InsEnrollment (enrollmentIn 1 1)), Create (InsEnrollment (enrollmentIn 1 2)),
      Create (InsAttendance (attendanceOf 1 ''present'')),
      Create (InsAttendance (attendanceOf 2 ''late'')),
      Create (InsGrade grade1), Create (InsEvent (eventAt ''Faculty Meeting'' 1700000000000))]"

definition demoStore :: MemStorage where
  "demoStore = snd (run demoOps emptyStorage)"

text \<open>
  One partial per table, each supplying a single field; \<open>idPatch\<close> supplies the \<^verbatim>\<open>id\<close>.
\<close>

definition userPatch :: PartialUser where
  "userPatch = \<lparr>upd_user_id = None, upd_user_username = None, upd_user_password = None, upd_user_email = Some ''root@college.edu'', upd_user_role = None, upd_user_name = None, upd_user_profileImage = None\<rparr>"

definition studentPatch :: PartialStudent where
  "studentPatch = \<lparr>upd_student_id = None, upd_student_userId = None, upd_student_studentId = None, upd_student_program = None, upd_student_yearLevel = Some 4, upd_student_status = None, upd_student_enrollmentDate = None\<rparr>"

definition facultyPatch :: PartialFaculty where
  "facultyPatch = \<lparr>upd_faculty_id = None, upd_faculty_userId = None, upd_faculty_facultyId = None, upd_faculty_department = None, upd_faculty_position = Some ''Dean'', upd_faculty_joinDate = None, upd_faculty_status = None\<rparr>"

definition coursePatch :: PartialCourse where
  "coursePatch = \<lparr>upd_course_id = None, upd_course_code = None, upd_course_title = None, upd_course_description = None, upd_course_credits = None, upd_course_department = None, upd_course_status = Some ''archived''\<rparr>"

definition assignmentPatch :: PartialCourseAssignment where
  "assignmentPatch = \<lparr>upd_assignment_id = None, upd_assignment_courseId = None, upd_assignment_facultyId = None, upd_assignment_semester = Some ''Winter'', upd_assignment_year = None\<rparr>"

definition enrollmentPatch :: PartialEnrollment where
  "enrollmentPatch = \<lparr>upd_enrollment_id = None, upd_enrollment_studentId = None, upd_enrollment_courseAssignmentId = None, upd_enrollment_enrollmentDate = None, upd_enrollment_status = Some ''dropped''\<rparr>"

definition attendancePatch :: PartialAttendance where
  "attendancePatch = \<lparr>upd_attendance_id = None, upd_attendance_enrollmentId = None, upd_attendance_date = None, upd_attendance_status = Some ''excused'', upd_attendance_notes = None\<rparr>"

definition gradePatch :: PartialGrade where
  "gradePatch = \<lparr>upd_grade_id = None, upd_grade_enrollmentId = None, upd_grade_assignmentName = None, upd_grade_score = Some 90, upd_grade_maxScore = None, upd_grade_weight = None, upd_grade_date = None\<rparr>"

definition eventPatch :: PartialEvent where
  "eventPatch = \<lparr>upd_event_id = None, upd_event_title = None, upd_event_description = None, upd_event_startDate = None, upd_event_endDate = None, upd_event_location = Some None, upd_event_type = None\<rparr>"

definition idPatch :: PartialUser where
  "idPatch = \<lparr>upd_user_id = Some 999, upd_user_username = None, upd_user_password = None,
     upd_user_email = None, upd_user_role = None, upd_user_name = None,
     upd_user_profileImage = None\<rparr>"


text \<open>Three events, the first in the past of the clock reading 150.\<close>

definition eventStore :: MemStorage where
  "eventStore =
     snd (run [Create (InsEvent (eventAt ''Past'' 100)), Create (InsEvent (eventAt ''Later'' 300)),
               Create (InsEvent (eventAt ''Sooner'' 200))] emptyStorage)"








section \<open>Properties\<close>

subsection \<open>The map operations\<close>

lemma map_has_get: "map_has m k \<longleftrightarrow> map_get m k \<noteq> None"
  by (simp add: map_has_def map_get_def map_of_eq_None_iff)

lemma map_get_set: "map_get (map_set k v m) j = (if j = k then Some v else map_get m j)"
  by (induction m) (auto simp: map_get_def)

lemma map_set_fresh: "\<not> map_has m k \<Longrightarrow> map_set k v m = m @ [(k, v)]"
  by (induction m) (auto simp: map_has_def)

lemma map_keys_set_present: "map_has m k \<Longrightarrow> map_keys (map_set k v m) = map_keys m"
  by (induction m) (auto simp: map_has_def map_keys_def)

lemma map_keys_set_fresh: "\<not> map_has m k \<Longrightarrow> map_keys (map_set k v m) = map_keys m @ [k]"
  by (simp add: map_set_fresh map_keys_def)

lemma map_get_delete: "map_get (map_delete k m) j = (if j = k then None else map_get m j)"
  by (induction m) (auto simp: map_get_def map_delete_def)

lemma map_delete_absent: "\<not> map_has m k \<Longrightarrow> map_delete k m = m"
  by (induction m) (auto simp: map_has_def map_delete_def)

lemma map_has_delete: "map_has (map_delete k m) j \<longleftrightarrow> j \<noteq> k \<and> map_has m j"
  by (simp add: map_has_get map_get_delete)

lemma map_keys_delete: "map_keys (map_delete k m) = filter (\<lambda>j. j \<noteq> k) (map_keys m)"
  by (induction m) (auto simp: map_keys_def map_delete_def)

lemma table_ok_has_less: "table_ok m n \<Longrightarrow> map_has m k \<Longrightarrow> k < n"
  by (auto simp: table_ok_def map_has_def map_keys_def list_all_iff)

lemma table_ok_fresh: "table_ok m n \<Longrightarrow> \<not> map_has m n"
  using table_ok_has_less by blast

lemma table_ok_set_new:
  assumes "table_ok m n"
  shows "table_ok (map_set n v m) (n + 1)"
proof -
  have fresh: "\<not> map_has m n"
    using assms by (rule table_ok_fresh)
  have keys: "map_keys (map_set n v m) = map_keys m @ [n]"
    using fresh by (rule map_keys_set_fresh)
  show ?thesis
    using assms fresh unfolding table_ok_def keys
    by (auto simp: list_all_iff map_has_def map_keys_def)
qed

lemma table_ok_set_present: "table_ok m n \<Longrightarrow> map_has m k \<Longrightarrow> table_ok (map_set k v m) n"
  by (simp add: table_ok_def map_keys_set_present)

lemma table_ok_delete: "table_ok m n \<Longrightarrow> table_ok (map_delete k m) n"
  by (auto simp: table_ok_def map_keys_delete list_all_iff)

subsection \<open>Delete\<close>

lemmas delete_defs = deleteUser_def getUser_def deleteStudent_def getStudent_def deleteFaculty_def getFaculty_def deleteCourse_def getCourse_def deleteCourseAssignment_def getCourseAssignment_def deleteEnrollment_def getEnrollment_def deleteAttendance_def getAttendance_def deleteGrade_def getGrade_def deleteEvent_def getEvent_def

text \<open>
  Claim C8. For each of the nine tables, \<^verbatim>\<open>delete(id)\<close> returns true exactly when a row
  was stored under the id; afterwards the id is absent, every other id holds what it
  held, and no other table or counter has changed. When no row was stored under the id
  the store is left as it was. Deleting the same id a second time returns false.
\<close>

theorem delete_returns_whether_row_existed:
  "(fst (deleteUser k s) \<longleftrightarrow> getUser s k \<noteq> None)
     \<and> getUser (snd (deleteUser k s)) j = (if j = k then None else getUser s j)
     \<and> (snd (deleteUser k s))\<lparr>users := users s\<rparr> = s
     \<and> (getUser s k = None \<longrightarrow> snd (deleteUser k s) = s)
     \<and> \<not> fst (deleteUser k (snd (deleteUser k s)))
     \<and> (fst (deleteStudent k s) \<longleftrightarrow> getStudent s k \<noteq> None)
     \<and> getStudent (snd (deleteStudent k s)) j = (if j = k then None else getStudent s j)
     \<and> (snd (deleteStudent k s))\<lparr>students := students s\<rparr> = s
     \<and> (getStudent s k = None \<longrightarrow> snd (deleteStudent k s) = s)
     \<and> \<not> fst (deleteStudent k (snd (deleteStudent k s)))
     \<and> (fst (deleteFaculty k s) \<longleftrightarrow> getFaculty s k \<noteq> None)
     \<and> getFaculty (snd (deleteFaculty k s)) j = (if j = k then None else getFaculty s j)
     \<and> (snd (deleteFaculty k s))\<lparr>faculty := faculty s\<rparr> = s
     \<and> (getFaculty s k = None \<longrightarrow> snd (deleteFaculty k s) = s)
     \<and> \<not> fst (deleteFaculty k (snd (deleteFaculty k s)))
     \<and> (fst (deleteCourse k s) \<longleftrightarrow> getCourse s k \<noteq> None)
     \<and> getCourse (snd (deleteCourse k s)) j = (if j = k then None else getCourse s j)
     \<and> (snd (deleteCourse k s))\<lparr>courses := courses s\<rparr> = s
     \<and> (getCourse s k = None \<longrightarrow> snd (deleteCourse k s) = s)
     \<and> \<not> fst (deleteCourse k (snd (deleteCourse k s)))
     \<and> (fst (deleteCourseAssignment k s) \<longleftrightarrow> getCourseAssignment s k \<noteq> None)
     \<and> getCourseAssignment (snd (deleteCourseAssignment k s)) j = (if j = k then None else getCourseAssignment s j)
     \<and> (snd (deleteCourseAssignment k s))\<lparr>courseAssignments := courseAssignments s\<rparr> = s
     \<and> (getCourseAssignment s k = None \<longrightarrow> snd (deleteCourseAssignment k s) = s)
     \<and> \<not> fst (deleteCourseAssignment k (snd (deleteCourseAssignment k s)))
     \<and> (fst (deleteEnrollment k s) \<longleftrightarrow> getEnrollment s k \<noteq> None)
     \<and> getEnrollment (snd (deleteEnrollment k s)) j = (if j = k then None else getEnrollment s j)
     \<and> (snd (deleteEnrollment k s))\<lparr>enrollments := enrollments s\<rparr> = s
     \<and> (getEnrollment s k = None \<longrightarrow> snd (deleteEnrollment k s) = s)
     \<and> \<not> fst (deleteEnrollment k (snd (deleteEnrollment k s)))
     \<and> (fst (deleteAttendance k s) \<longleftrightarrow> getAttendance s k \<noteq> None)
     \<and> getAttendance (snd (deleteAttendance k s)) j = (if j = k then None else getAttendance s j)
     \<and> (snd (deleteAttendance k s))\<lparr>attendance := attendance s\<rparr> = s
     \<and> (getAttendance s k = None \<longrightarrow> snd (deleteAttendance k s) = s)
     \<and> \<not> fst (deleteAttendance k (snd (deleteAttendance k s)))
     \<and> (fst (deleteGrade k s) \<longleftrightarrow> getGrade s k \<noteq> None)
     \<and> getGrade (snd (deleteGrade k s)) j = (if j = k then None else getGrade s j)
     \<and> (snd (deleteGrade k s))\<lparr>grades := grades s\<rparr> = s
     \<and> (getGrade s k = None \<longrightarrow> snd (deleteGrade k s) = s)
     \<and> \<not> fst (deleteGrade k (snd (deleteGrade k s)))
     \<and> (fst (deleteEvent k s) \<longleftrightarrow> getEvent s k \<noteq> None)
     \<and> getEvent (snd (deleteEvent k s)) j = (if j = k then None else getEvent s j)
     \<and> (snd (deleteEvent k s))\<lparr>events := events s\<rparr> = s
     \<and> (getEvent s k = None \<longrightarrow> snd (deleteEvent k s) = s)
     \<and> \<not> fst (deleteEvent k (snd (deleteEvent k s)))"
  by (simp add: delete_defs map_has_get map_get_delete map_delete_absent)

text \<open>On the empty store every delete finds nothing, returns false and changes nothing.\<close>

theorem delete_returns_whether_row_existed_witness:
  "getUser emptyStorage 1 = None \<and> snd (deleteUser 1 emptyStorage) = emptyStorage \<and> \<not> fst (deleteUser 1 emptyStorage)
     \<and> getStudent emptyStorage 1 = None \<and> snd (deleteStudent 1 emptyStorage) = emptyStorage \<and> \<not> fst (deleteStudent 1 emptyStorage)
     \<and> getFaculty emptyStorage 1 = None \<and> snd (deleteFaculty 1 emptyStorage) = emptyStorage \<and> \<not> fst (deleteFaculty 1 emptyStorage)
     \<and> getCourse emptyStorage 1 = None \<and> snd (deleteCourse 1 emptyStorage) = emptyStorage \<and> \<not> fst (deleteCourse 1 emptyStorage)
     \<and> getCourseAssignment emptyStorage 1 = None \<and> snd (deleteCourseAssignment 1 emptyStorage) = emptyStorage \<and> \<not> fst (deleteCourseAssignment 1 emptyStorage)
     \<and> getEnrollment emptyStorage 1 = None \<and> snd (deleteEnrollment 1 emptyStorage) = emptyStorage \<and> \<not> fst (deleteEnrollment 1 emptyStorage)
     \<and> getAttendance emptyStorage 1 = None \<and> snd (deleteAttendance 1 emptyStorage) = emptyStorage \<and> \<not> fst (deleteAttendance 1 emptyStorage)
     \<and> getGrade emptyStorage 1 = None \<and> snd (deleteGrade 1 emptyStorage) = emptyStorage \<and> \<not> fst (deleteGrade 1 emptyStorage)
     \<and> getEvent emptyStorage 1 = None \<and> snd (deleteEvent 1 emptyStorage) = emptyStorage \<and> \<not> fst (deleteEvent 1 emptyStorage)"
  using delete_returns_whether_row_existed [of 1 emptyStorage 1]
  by (simp add: emptyStorage_def getUser_def getStudent_def getFaculty_def getCourse_def getCourseAssignment_def getEnrollment_def getAttendance_def getGrade_def getEvent_def map_get_def)

subsection \<open>Counters and assigned ids\<close>

lemmas create_defs = createUser_def createStudent_def createFaculty_def createCourse_def createCourseAssignment_def createEnrollment_def createAttendance_def createGrade_def createEvent_def

lemmas update_defs = updateUser_def updateStudent_def updateFaculty_def updateCourse_def updateCourseAssignment_def updateEnrollment_def updateAttendance_def updateGrade_def updateEvent_def

lemmas get_defs = getUser_def getStudent_def getFaculty_def getCourse_def getCourseAssignment_def getEnrollment_def getAttendance_def getGrade_def getEvent_def

lemmas row_defs = InsertUser.defs User.defs InsertStudent.defs Student.defs InsertFaculty.defs Faculty.defs InsertCourse.defs Course.defs InsertCourseAssignment.defs CourseAssignment.defs InsertEnrollment.defs Enrollment.defs InsertAttendance.defs Attendance.defs InsertGrade.defs Grade.defs InsertEvent.defs Event.defs














lemma wf_store_empty: "wf_store emptyStorage"
  by (simp add: wf_store_def emptyStorage_def table_ok_def map_keys_def)



subsection \<open>The tables stay proper maps below their counters\<close>

lemma map_get_has: "map_get m k = Some v \<Longrightarrow> map_has m k"
  by (simp add: map_has_get)

lemma wf_create: "wf_store s \<Longrightarrow> wf_store (snd (create r s))"
  by (cases r) (simp_all add: wf_store_def create_defs Let_def table_ok_set_new)

lemma wf_update: "wf_store s \<Longrightarrow> wf_store (update k d s)"
  by (cases d)
    (auto simp: wf_store_def update_defs Let_def table_ok_set_present map_get_has
      split: option.split)

lemma wf_delete: "wf_store s \<Longrightarrow> wf_store (delete e k s)"
  by (cases e) (simp_all add: wf_store_def delete_defs table_ok_delete)

lemma wf_run: "wf_store s \<Longrightarrow> wf_store (snd (run ops s))"
proof (induction ops arbitrary: s)
  case Nil
  then show ?case by simp
next
  case (Cons op ops)
  show ?case
  proof (cases op)
    case (Create r)
    then show ?thesis
      using Cons.IH [OF wf_create [OF Cons.prems, of r]] by (simp add: split_def Let_def)
  next
    case (Update k d)
    then show ?thesis
      using Cons.IH [OF wf_update [OF Cons.prems, of k d]] by simp
  next
    case (Delete e k)
    then show ?thesis
      using Cons.IH [OF wf_delete [OF Cons.prems, of e k]] by simp
  qed
qed

subsection \<open>Create\<close>

lemma map_values_set_fresh: "\<not> map_has m k \<Longrightarrow> map_values (map_set k v m) = map_values m @ [v]"
  by (simp add: map_set_fresh map_values_def)

lemma createUser_appends:
  assumes "table_ok (users s) (ids_user (currentIds s))"
  shows "user_id (fst (createUser r s)) = ids_user (currentIds s)"
    and "InsertUser.truncate (fst (createUser r s)) = InsertUser.truncate r"
    and "getUser (snd (createUser r s)) j =
           (if j = ids_user (currentIds s) then Some (fst (createUser r s)) else getUser s j)"
    and "getAllUsers (snd (createUser r s)) = getAllUsers s @ [fst (createUser r s)]"
    and "getUser s (ids_user (currentIds s)) = None"
  using table_ok_fresh [OF assms]
  by (simp_all add: createUser_def getUser_def getAllUsers_def Let_def map_get_set
      map_values_set_fresh InsertUser.defs User.defs map_has_get)

lemma createStudent_appends:
  assumes "table_ok (students s) (ids_student (currentIds s))"
  shows "student_id (fst (createStudent r s)) = ids_student (currentIds s)"
    and "InsertStudent.truncate (fst (createStudent r s)) = InsertStudent.truncate r"
    and "getStudent (snd (createStudent r s)) j =
           (if j = ids_student (currentIds s) then Some (fst (createStudent r s)) else getStudent s j)"
    and "getAllStudents (snd (createStudent r s)) = getAllStudents s @ [fst (createStudent r s)]"
    and "getStudent s (ids_student (currentIds s)) = None"
  using table_ok_fresh [OF assms]
  by (simp_all add: createStudent_def getStudent_def getAllStudents_def Let_def map_get_set
      map_values_set_fresh InsertStudent.defs Student.defs map_has_get)

lemma createFaculty_appends:
  assumes "table_ok (faculty s) (ids_faculty (currentIds s))"
  shows "faculty_id (fst (createFaculty r s)) = ids_faculty (currentIds s)"
    and "InsertFaculty.truncate (fst (createFaculty r s)) = InsertFaculty.truncate r"
    and "getFaculty (snd (createFaculty r s)) j =
           (if j = ids_faculty (currentIds s) then Some (fst (createFaculty r s)) else getFaculty s j)"
    and "getAllFaculty (snd (createFaculty r s)) = getAllFaculty s @ [fst (createFaculty r s)]"
    and "getFaculty s (ids_faculty (currentIds s)) = None"
  using table_ok_fresh [OF assms]
  by (simp_all add: createFaculty_def getFaculty_def getAllFaculty_def Let_def map_get_set
      map_values_set_fresh InsertFaculty.defs Faculty.defs map_has_get)

lemma createCourse_appends:
  assumes "table_ok (courses s) (ids_course (currentIds s))"
  shows "course_id (fst (createCourse r s)) = ids_course (currentIds s)"
    and "InsertCourse.truncate (fst (createCourse r s)) = InsertCourse.truncate r"
    and "getCourse (snd (createCourse r s)) j =
           (if j = ids_course (currentIds s) then Some (fst (createCourse r s)) else getCourse s j)"
    and "getAllCourses (snd (createCourse r s)) = getAllCourses s @ [fst (createCourse r s)]"
    and "getCourse s (ids_course (currentIds s)) = None"
  using table_ok_fresh [OF assms]
  by (simp_all add: createCourse_def getCourse_def getAllCourses_def Let_def map_get_set
      map_values_set_fresh InsertCourse.defs Course.defs map_has_get)

lemma createCourseAssignment_appends:
  assumes "table_ok (courseAssignments s) (ids_courseAssignment (currentIds s))"
  shows "assignment_id (fst (createCourseAssignment r s)) = ids_courseAssignment (currentIds s)"
    and "InsertCourseAssignment.truncate (fst (createCourseAssignment r s)) = InsertCourseAssignment.truncate r"
    and "getCourseAssignment (snd (createCourseAssignment r s)) j =
           (if j = ids_courseAssignment (currentIds s) then Some (fst (createCourseAssignment r s)) else getCourseAssignment s j)"
    and "getAllCourseAssignments (snd (createCourseAssignment r s)) = getAllCourseAssignments s @ [fst (createCourseAssignment r s)]"
    and "getCourseAssignment s (ids_courseAssignment (currentIds s)) = None"
  using table_ok_fresh [OF assms]
  by (simp_all add: createCourseAssignment_def getCourseAssignment_def getAllCourseAssignments_def Let_def map_get_set
      map_values_set_fresh InsertCourseAssignment.defs CourseAssignment.defs map_has_get)

lemma createEnrollment_appends:
  assumes "table_ok (enrollments s) (ids_enrollment (currentIds s))"
  shows "enrollment_id (fst (createEnrollment r s)) = ids_enrollment (currentIds s)"
    and "InsertEnrollment.truncate (fst (createEnrollment r s)) = InsertEnrollment.truncate r"
    and "getEnrollment (snd (createEnrollment r s)) j =
           (if j = ids_enrollment (currentIds s) then Some (fst (createEnrollment r s)) else getEnrollment s j)"
    and "getAllEnrollments (snd (createEnrollment r s)) = getAllEnrollments s @ [fst (createEnrollment r s)]"
    and "getEnrollment s (ids_enrollment (currentIds s)) = None"
  using table_ok_fresh [OF assms]
  by (simp_all add: createEnrollment_def getEnrollment_def getAllEnrollments_def Let_def map_get_set
      map_values_set_fresh InsertEnrollment.defs Enrollment.defs map_has_get)

lemma createAttendance_appends:
  assumes "table_ok (attendance s) (ids_attendance (currentIds s))"
  shows "attendance_id (fst (createAttendance r s)) = ids_attendance (currentIds s)"
    and "InsertAttendance.truncate (fst (createAttendance r s)) = InsertAttendance.truncate r"
    and "getAttendance (snd (createAttendance r s)) j =
           (if j = ids_attendance (currentIds s) then Some (fst (createAttendance r s)) else getAttendance s j)"
    and "getAllAttendance (snd (createAttendance r s)) = getAllAttendance s @ [fst (createAttendance r s)]"
    and "getAttendance s (ids_attendance (currentIds s)) = None"
  using table_ok_fresh [OF assms]
  by (simp_all add: createAttendance_def getAttendance_def getAllAttendance_def Let_def map_get_set
      map_values_set_fresh InsertAttendance.defs Attendance.defs map_has_get)

lemma createGrade_appends:
  assumes "table_ok (grades s) (ids_grade (currentIds s))"
  shows "grade_id (fst (createGrade r s)) = ids_grade (currentIds s)"
    and "InsertGrade.truncate (fst (createGrade r s)) = InsertGrade.truncate r"
    and "getGrade (snd (createGrade r s)) j =
           (if j = ids_grade (currentIds s) then Some (fst (createGrade r s)) else getGrade s j)"
    and "getAllGrades (snd (createGrade r s)) = getAllGrades s @ [fst (createGrade r s)]"
    and "getGrade s (ids_grade (currentIds s)) = None"
  using table_ok_fresh [OF assms]
  by (simp_all add: createGrade_def getGrade_def getAllGrades_def Let_def map_get_set
      map_values_set_fresh InsertGrade.defs Grade.defs map_has_get)

lemma createEvent_appends:
  assumes "table_ok (events s) (ids_event (currentIds s))"
  shows "event_id (fst (createEvent r s)) = ids_event (currentIds s)"
    and "InsertEvent.truncate (fst (createEvent r s)) = InsertEvent.truncate r"
    and "getEvent (snd (createEvent r s)) j =
           (if j = ids_event (currentIds s) then Some (fst (createEvent r s)) else getEvent s j)"
    and "getAllEvents (snd (createEvent r s)) = getAllEvents s @ [fst (createEvent r s)]"
    and "getEvent s (ids_event (currentIds s)) = None"
  using table_ok_fresh [OF assms]
  by (simp_all add: createEvent_def getEvent_def getAllEvents_def Let_def map_get_set
      map_values_set_fresh InsertEvent.defs Event.defs map_has_get)

lemma createUser_keeps_username: "user_username (fst (createUser r s)) = user_username r"
  by (simp add: createUser_def Let_def InsertUser.defs User.defs)

lemma createStudent_keeps_studentId: "student_studentId (fst (createStudent r s)) = student_studentId r"
  by (simp add: createStudent_def Let_def InsertStudent.defs Student.defs)

lemma createFaculty_keeps_facultyId: "faculty_facultyId (fst (createFaculty r s)) = faculty_facultyId r"
  by (simp add: createFaculty_def Let_def InsertFaculty.defs Faculty.defs)

lemma createCourse_keeps_code: "course_code (fst (createCourse r s)) = course_code r"
  by (simp add: createCourse_def Let_def InsertCourse.defs Course.defs)


lemmas sample_defs = adminUser_def smithUser_def emmaUser_def facultyProfile1_def
  studentProfile1_def course1_def assignmentIn_def enrollmentIn_def attendanceOf_def grade1_def
  eventAt_def

lemma demoStore_wf: "wf_store demoStore"
  unfolding demoStore_def by (rule wf_run) (rule wf_store_empty)

lemma demoStore_users:
  "users demoStore =
     [(1, InsertUser.extend adminUser (User.fields 1)),
      (2, InsertUser.extend smithUser (User.fields 2)),
      (3, InsertUser.extend emmaUser (User.fields 3))]"
  by (simp add: demoStore_def demoOps_def emptyStorage_def create_defs Let_def)

lemma demoStore_students:
  "students demoStore = [(1, InsertStudent.extend studentProfile1 (Student.fields 1))]"
  by (simp add: demoStore_def demoOps_def emptyStorage_def create_defs Let_def)

lemma demoStore_faculty:
  "faculty demoStore = [(1, InsertFaculty.extend facultyProfile1 (Faculty.fields 1))]"
  by (simp add: demoStore_def demoOps_def emptyStorage_def create_defs Let_def)

lemma demoStore_courses:
  "courses demoStore = [(1, InsertCourse.extend course1 (Course.fields 1))]"
  by (simp add: demoStore_def demoOps_def emptyStorage_def create_defs Let_def)

lemma demoStore_courseAssignments:
  "courseAssignments demoStore =
     [(1, InsertCourseAssignment.extend (assignmentIn 1 ''Fall'' 2023) (CourseAssignment.fields 1)),
      (2, InsertCourseAssignment.extend (assignmentIn 1 ''Spring'' 2024) (CourseAssignment.fields 2))]"
  by (simp add: demoStore_def demoOps_def emptyStorage_def create_defs Let_def)

lemma demoStore_enrollments:
  "enrollments demoStore =
     [(1, InsertEnrollment.extend (enrollmentIn 1 1) (Enrollment.fields 1)),
      (2, InsertEnrollment.extend (enrollmentIn 1 2) (Enrollment.fields 2))]"
  by (simp add: demoStore_def demoOps_def emptyStorage_def create_defs Let_def)

lemma demoStore_attendance:
  "attendance demoStore =
     [(1, InsertAttendance.extend (attendanceOf 1 ''present'') (Attendance.fields 1)),
      (2, InsertAttendance.extend (attendanceOf 2 ''late'') (Attendance.fields 2))]"
  by (simp add: demoStore_def demoOps_def emptyStorage_def create_defs Let_def)

lemma demoStore_grades:
  "grades demoStore = [(1, InsertGrade.extend grade1 (Grade.fields 1))]"
  by (simp add: demoStore_def demoOps_def emptyStorage_def create_defs Let_def)

lemma demoStore_events:
  "events demoStore =
     [(1, InsertEvent.extend (eventAt ''Faculty Meeting'' 1700000000000) (Event.fields 1))]"
  by (simp add: demoStore_def demoOps_def emptyStorage_def create_defs Let_def)

lemma demoStore_currentIds:
  "currentIds demoStore =
     \<lparr>ids_user = 4, ids_student = 2, ids_faculty = 2, ids_course = 2,
      ids_courseAssignment = 3, ids_enrollment = 3, ids_attendance = 3, ids_grade = 2,
      ids_event = 2\<rparr>"
  by (simp add: demoStore_def demoOps_def emptyStorage_def create_defs Let_def)

lemmas demoStore_tables = demoStore_users demoStore_students demoStore_faculty
  demoStore_courses demoStore_courseAssignments demoStore_enrollments demoStore_attendance
  demoStore_grades demoStore_events demoStore_currentIds

text \<open>
  Claim C7. No create checks a secondary key. In a running store, creating a user whose
  username is that of a stored user (and likewise a student with a stored
  \<^verbatim>\<open>studentId\<close>, a faculty member with a stored \<^verbatim>\<open>facultyId\<close>, a course with a stored
  \<^verbatim>\<open>code\<close>) returns a row with a new id that carries the duplicate key and the other
  fields as given; the old row stays where it was, the new row is stored under its id,
  and the table has grown by exactly that row. The create methods have no failing
  branch: they return a row, never an error.
\<close>

theorem create_accepts_duplicate_keys:
  assumes "wf_store s"
  shows
    "(getUser s ku = Some u \<and> user_username ru = user_username u \<longrightarrow>
        user_id (fst (createUser ru s)) \<noteq> ku
        \<and> user_username (fst (createUser ru s)) = user_username u
        \<and> InsertUser.truncate (fst (createUser ru s)) = InsertUser.truncate ru
        \<and> getUser (snd (createUser ru s)) ku = Some u
        \<and> getUser (snd (createUser ru s)) (user_id (fst (createUser ru s))) = Some (fst (createUser ru s))
        \<and> getAllUsers (snd (createUser ru s)) = getAllUsers s @ [fst (createUser ru s)])
     \<and> (getStudent s kst = Some st \<and> student_studentId rst = student_studentId st \<longrightarrow>
        student_id (fst (createStudent rst s)) \<noteq> kst
        \<and> student_studentId (fst (createStudent rst s)) = student_studentId st
        \<and> InsertStudent.truncate (fst (createStudent rst s)) = InsertStudent.truncate rst
        \<and> getStudent (snd (createStudent rst s)) kst = Some st
        \<and> getStudent (snd (createStudent rst s)) (student_id (fst (createStudent rst s))) = Some (fst (createStudent rst s))
        \<and> getAllStudents (snd (createStudent rst s)) = getAllStudents s @ [fst (createStudent rst s)])
     \<and> (getFaculty s kf = Some f \<and> faculty_facultyId rf = faculty_facultyId f \<longrightarrow>
        faculty_id (fst (createFaculty rf s)) \<noteq> kf
        \<and> faculty_facultyId (fst (createFaculty rf s)) = faculty_facultyId f
        \<and> InsertFaculty.truncate (fst (createFaculty rf s)) = InsertFaculty.truncate rf
        \<and> getFaculty (snd (createFaculty rf s)) kf = Some f
        \<and> getFaculty (snd (createFaculty rf s)) (faculty_id (fst (createFaculty rf s))) = Some (fst (createFaculty rf s))
        \<and> getAllFaculty (snd (createFaculty rf s)) = getAllFaculty s @ [fst (createFaculty rf s)])
     \<and> (getCourse s kc = Some c \<and> course_code rc = course_code c \<longrightarrow>
        course_id (fst (createCourse rc s)) \<noteq> kc
        \<and> course_code (fst (createCourse rc s)) = course_code c
        \<and> InsertCourse.truncate (fst (createCourse rc s)) = InsertCourse.truncate rc
        \<and> getCourse (snd (createCourse rc s)) kc = Some c
        \<and> getCourse (snd (createCourse rc s)) (course_id (fst (createCourse rc s))) = Some (fst (createCourse rc s))
        \<and> getAllCourses (snd (createCourse rc s)) = getAllCourses s @ [fst (createCourse rc s)])"
proof -
  have okUser: "table_ok (users s) (ids_user (currentIds s))"
    using assms by (simp add: wf_store_def)
  have dupUser:
    "getUser s ku = Some u \<and> user_username ru = user_username u \<longrightarrow>
        user_id (fst (createUser ru s)) \<noteq> ku
        \<and> user_username (fst (createUser ru s)) = user_username u
        \<and> InsertUser.truncate (fst (createUser ru s)) = InsertUser.truncate ru
        \<and> getUser (snd (createUser ru s)) ku = Some u
        \<and> getUser (snd (createUser ru s)) (user_id (fst (createUser ru s))) = Some (fst (createUser ru s))
        \<and> getAllUsers (snd (createUser ru s)) = getAllUsers s @ [fst (createUser ru s)]"
  proof (intro impI, elim conjE)
    assume stored: "getUser s ku = Some u" and same: "user_username ru = user_username u"
    have "ku < ids_user (currentIds s)"
      using table_ok_has_less [OF okUser, of ku] stored by (simp add: getUser_def map_has_get)
    then show "user_id (fst (createUser ru s)) \<noteq> ku
        \<and> user_username (fst (createUser ru s)) = user_username u
        \<and> InsertUser.truncate (fst (createUser ru s)) = InsertUser.truncate ru
        \<and> getUser (snd (createUser ru s)) ku = Some u
        \<and> getUser (snd (createUser ru s)) (user_id (fst (createUser ru s))) = Some (fst (createUser ru s))
        \<and> getAllUsers (snd (createUser ru s)) = getAllUsers s @ [fst (createUser ru s)]"
      using stored same
      by (simp add: createUser_appends [OF okUser] createUser_keeps_username)
  qed
  have okStudent: "table_ok (students s) (ids_student (currentIds s))"
    using assms by (simp add: wf_store_def)
  have dupStudent:
    "getStudent s kst = Some st \<and> student_studentId rst = student_studentId st \<longrightarrow>
        student_id (fst (createStudent rst s)) \<noteq> kst
        \<and> student_studentId (fst (createStudent rst s)) = student_studentId st
        \<and> InsertStudent.truncate (fst (createStudent rst s)) = InsertStudent.truncate rst
        \<and> getStudent (snd (createStudent rst s)) kst = Some st
        \<and> getStudent (snd (createStudent rst s)) (student_id (fst (createStudent rst s))) = Some (fst (createStudent rst s))
        \<and> getAllStudents (snd (createStudent rst s)) = getAllStudents s @ [fst (createStudent rst s)]"
  proof (intro impI, elim conjE)
    assume stored: "getStudent s kst = Some st" and same: "student_studentId rst = student_studentId st"
    have "kst < ids_student (currentIds s)"
      using table_ok_has_less [OF okStudent, of kst] stored by (simp add: getStudent_def map_has_get)
    then show "student_id (fst (createStudent rst s)) \<noteq> kst
        \<and> student_studentId (fst (createStudent rst s)) = student_studentId st
        \<and> InsertStudent.truncate (fst (createStudent rst s)) = InsertStudent.truncate rst
        \<and> getStudent (snd (createStudent rst s)) kst = Some st
        \<and> getStudent (snd (createStudent rst s)) (student_id (fst (createStudent rst s))) = Some (fst (createStudent rst s))
        \<and> getAllStudents (snd (createStudent rst s)) = getAllStudents s @ [fst (createStudent rst s)]"
      using stored same
      by (simp add: createStudent_appends [OF okStudent] createStudent_keeps_studentId)
  qed
  have okFaculty: "table_ok (faculty s) (ids_faculty (currentIds s))"
    using assms by (simp add: wf_store_def)
  have dupFaculty:
    "getFaculty s kf = Some f \<and> faculty_facultyId rf = faculty_facultyId f \<longrightarrow>
        faculty_id (fst (createFaculty rf s)) \<noteq> kf
        \<and> faculty_facultyId (fst (createFaculty rf s)) = faculty_facultyId f
        \<and> InsertFaculty.truncate (fst (createFaculty rf s)) = InsertFaculty.truncate rf
        \<and> getFaculty (snd (createFaculty rf s)) kf = Some f
        \<and> getFaculty (snd (createFaculty rf s)) (faculty_id (fst (createFaculty rf s))) = Some (fst (createFaculty rf s))
        \<and> getAllFaculty (snd (createFaculty rf s)) = getAllFaculty s @ [fst (createFaculty rf s)]"
  proof (intro impI, elim conjE)
    assume stored: "getFaculty s kf = Some f" and same: "faculty_facultyId rf = faculty_facultyId f"
    have "kf < ids_faculty (currentIds s)"
      using table_ok_has_less [OF okFaculty, of kf] stored by (simp add: getFaculty_def map_has_get)
    then show "faculty_id (fst (createFaculty rf s)) \<noteq> kf
        \<and> faculty_facultyId (fst (createFaculty rf s)) = faculty_facultyId f
        \<and> InsertFaculty.truncate (fst (createFaculty rf s)) = InsertFaculty.truncate rf
        \<and> getFaculty (snd (createFaculty rf s)) kf = Some f
        \<and> getFaculty (snd (createFaculty rf s)) (faculty_id (fst (createFaculty rf s))) = Some (fst (createFaculty rf s))
        \<and> getAllFaculty (snd (createFaculty rf s)) = getAllFaculty s @ [fst (createFaculty rf s)]"
      using stored same
      by (simp add: createFaculty_appends [OF okFaculty] createFaculty_keeps_facultyId)
  qed
  have okCourse: "table_ok (courses s) (ids_course (currentIds s))"
    using assms by (simp add: wf_store_def)
  have dupCourse:
    "getCourse s kc = Some c \<and> course_code rc = course_code c \<longrightarrow>
        course_id (fst (createCourse rc s)) \<noteq> kc
        \<and> course_code (fst (createCourse rc s)) = course_code c
        \<and> InsertCourse.truncate (fst (createCourse rc s)) = InsertCourse.truncate rc
        \<and> getCourse (snd (createCourse rc s)) kc = Some c
        \<and> getCourse (snd (createCourse rc s)) (course_id (fst (createCourse rc s))) = Some (fst (createCourse rc s))
        \<and> getAllCourses (snd (createCourse rc s)) = getAllCourses s @ [fst (createCourse rc s)]"
  proof (intro impI, elim conjE)
    assume stored: "getCourse s kc = Some c" and same: "course_code rc = course_code c"
    have "kc < ids_course (currentIds s)"
      using table_ok_has_less [OF okCourse, of kc] stored by (simp add: getCourse_def map_has_get)
    then show "course_id (fst (createCourse rc s)) \<noteq> kc
        \<and> course_code (fst (createCourse rc s)) = course_code c
        \<and> InsertCourse.truncate (fst (createCourse rc s)) = InsertCourse.truncate rc
        \<and> getCourse (snd (createCourse rc s)) kc = Some c
        \<and> getCourse (snd (createCourse rc s)) (course_id (fst (createCourse rc s))) = Some (fst (createCourse rc s))
        \<and> getAllCourses (snd (createCourse rc s)) = getAllCourses s @ [fst (createCourse rc s)]"
      using stored same
      by (simp add: createCourse_appends [OF okCourse] createCourse_keeps_code)
  qed
  show ?thesis
    using dupUser dupStudent dupFaculty dupCourse by (intro conjI)
qed

text \<open>
  On the demo store, creating the admin user, the student profile, the faculty profile
  and the course a second time is accepted each time: the table then holds the key twice.
\<close>

theorem create_accepts_duplicate_keys_witness:
  "wf_store demoStore
   \<and> getUser demoStore 1 = Some (InsertUser.extend adminUser (User.fields 1))
   \<and> user_username adminUser = user_username (InsertUser.extend adminUser (User.fields 1))
   \<and> user_id (fst (createUser adminUser demoStore)) = 4
   \<and> map user_username (getAllUsers (snd (createUser adminUser demoStore)))
       = [''admin'', ''professor.smith'', ''emma.wilson'', ''admin'']
   \<and> getStudent demoStore 1 = Some (InsertStudent.extend studentProfile1 (Student.fields 1))
   \<and> student_studentId studentProfile1
       = student_studentId (InsertStudent.extend studentProfile1 (Student.fields 1))
   \<and> map student_studentId (getAllStudents (snd (createStudent studentProfile1 demoStore)))
       = [''STU1001'', ''STU1001'']
   \<and> getFaculty demoStore 1 = Some (InsertFaculty.extend facultyProfile1 (Faculty.fields 1))
   \<and> faculty_facultyId facultyProfile1
       = faculty_facultyId (InsertFaculty.extend facultyProfile1 (Faculty.fields 1))
   \<and> map faculty_facultyId (getAllFaculty (snd (createFaculty facultyProfile1 demoStore)))
       = [''FAC1001'', ''FAC1001'']
   \<and> getCourse demoStore 1 = Some (InsertCourse.extend course1 (Course.fields 1))
   \<and> course_code course1 = course_code (InsertCourse.extend course1 (Course.fields 1))
   \<and> map course_code (getAllCourses (snd (createCourse course1 demoStore)))
       = [''CS101'', ''CS101'']"
proof -
  have got:
    "getUser demoStore 1 = Some (InsertUser.extend adminUser (User.fields 1))"
    "getStudent demoStore 1 = Some (InsertStudent.extend studentProfile1 (Student.fields 1))"
    "getFaculty demoStore 1 = Some (InsertFaculty.extend facultyProfile1 (Faculty.fields 1))"
    "getCourse demoStore 1 = Some (InsertCourse.extend course1 (Course.fields 1))"
    by (simp_all add: get_defs map_get_def demoStore_tables)
  have same:
    "user_username adminUser = user_username (InsertUser.extend adminUser (User.fields 1))"
    "student_studentId studentProfile1
       = student_studentId (InsertStudent.extend studentProfile1 (Student.fields 1))"
    "faculty_facultyId facultyProfile1
       = faculty_facultyId (InsertFaculty.extend facultyProfile1 (Faculty.fields 1))"
    "course_code course1 = course_code (InsertCourse.extend course1 (Course.fields 1))"
    by (simp_all add: row_defs)
  have all:
    "getAllUsers demoStore =
       [InsertUser.extend adminUser (User.fields 1), InsertUser.extend smithUser (User.fields 2),
        InsertUser.extend emmaUser (User.fields 3)]"
    "getAllStudents demoStore = [InsertStudent.extend studentProfile1 (Student.fields 1)]"
    "getAllFaculty demoStore = [InsertFaculty.extend facultyProfile1 (Faculty.fields 1)]"
    "getAllCourses demoStore = [InsertCourse.extend course1 (Course.fields 1)]"
    by (simp_all add: getAllUsers_def getAllStudents_def getAllFaculty_def getAllCourses_def
        map_values_def demoStore_tables)
  have new: "user_id (fst (createUser adminUser demoStore)) = 4"
    by (simp add: createUser_def Let_def demoStore_tables row_defs)
  note dup = create_accepts_duplicate_keys [OF demoStore_wf,
      of 1 "InsertUser.extend adminUser (User.fields 1)" adminUser
         1 "InsertStudent.extend studentProfile1 (Student.fields 1)" studentProfile1
         1 "InsertFaculty.extend facultyProfile1 (Faculty.fields 1)" facultyProfile1
         1 "InsertCourse.extend course1 (Course.fields 1)" course1]
  show ?thesis
    using dup got same new demoStore_wf
    by (simp add: all createUser_keeps_username createStudent_keeps_studentId
        createFaculty_keeps_facultyId createCourse_keeps_code sample_defs row_defs)
qed

subsection \<open>Update\<close>

lemma mergeUser_fields:
  shows "user_username (mergeUser row d) = (case upd_user_username d of None \<Rightarrow> user_username row | Some v \<Rightarrow> v)"
    and "user_password (mergeUser row d) = (case upd_user_password d of None \<Rightarrow> user_password row | Some v \<Rightarrow> v)"
    and "user_email (mergeUser row d) = (case upd_user_email d of None \<Rightarrow> user_email row | Some v \<Rightarrow> v)"
    and "user_role (mergeUser row d) = (case upd_user_role d of None \<Rightarrow> user_role row | Some v \<Rightarrow> v)"
    and "user_name (mergeUser row d) = (case upd_user_name d of None \<Rightarrow> user_name row | Some v \<Rightarrow> v)"
    and "user_profileImage (mergeUser row d) = (case upd_user_profileImage d of None \<Rightarrow> user_profileImage row | Some v \<Rightarrow> v)"
    and "user_id (mergeUser row d) = (case upd_user_id d of None \<Rightarrow> user_id row | Some v \<Rightarrow> v)"
  by (simp_all add: mergeUser_def spread_def)

lemma updateUser_absent:
  "getUser s k = None \<Longrightarrow> updateUser k d s = (None, s)"
  by (simp add: updateUser_def getUser_def)

lemma updateUser_present:
  assumes "getUser s k = Some row"
  shows "fst (updateUser k d s) = Some (mergeUser row d)"
    and "getUser (snd (updateUser k d s)) j = (if j = k then Some (mergeUser row d) else getUser s j)"
    and "(snd (updateUser k d s))\<lparr>users := users s\<rparr> = s"
    and "map_keys (users (snd (updateUser k d s))) = map_keys (users s)"
  using assms
  by (simp_all add: updateUser_def getUser_def Let_def map_get_set map_keys_set_present map_has_get)

lemma mergeStudent_fields:
  shows "student_userId (mergeStudent row d) = (case upd_student_userId d of None \<Rightarrow> student_userId row | Some v \<Rightarrow> v)"
    and "student_studentId (mergeStudent row d) = (case upd_student_studentId d of None \<Rightarrow> student_studentId row | Some v \<Rightarrow> v)"
    and "student_program (mergeStudent row d) = (case upd_student_program d of None \<Rightarrow> student_program row | Some v \<Rightarrow> v)"
    and "student_yearLevel (mergeStudent row d) = (case upd_student_yearLevel d of None \<Rightarrow> student_yearLevel row | Some v \<Rightarrow> v)"
    and "student_status (mergeStudent row d) = (case upd_student_status d of None \<Rightarrow> student_status row | Some v \<Rightarrow> v)"
    and "student_enrollmentDate (mergeStudent row d) = (case upd_student_enrollmentDate d of None \<Rightarrow> student_enrollmentDate row | Some v \<Rightarrow> v)"
    and "student_id (mergeStudent row d) = (case upd_student_id d of None \<Rightarrow> student_id row | Some v \<Rightarrow> v)"
  by (simp_all add: mergeStudent_def spread_def)

lemma updateStudent_absent:
  "getStudent s k = None \<Longrightarrow> updateStudent k d s = (None, s)"
  by (simp add: updateStudent_def getStudent_def)

lemma updateStudent_present:
  assumes "getStudent s k = Some row"
  shows "fst (updateStudent k d s) = Some (mergeStudent row d)"
    and "getStudent (snd (updateStudent k d s)) j = (if j = k then Some (mergeStudent row d) else getStudent s j)"
    and "(snd (updateStudent k d s))\<lparr>students := students s\<rparr> = s"
    and "map_keys (students (snd (updateStudent k d s))) = map_keys (students s)"
  using assms
  by (simp_all add: updateStudent_def getStudent_def Let_def map_get_set map_keys_set_present map_has_get)

lemma mergeFaculty_fields:
  shows "faculty_userId (mergeFaculty row d) = (case upd_faculty_userId d of None \<Rightarrow> faculty_userId row | Some v \<Rightarrow> v)"
    and "faculty_facultyId (mergeFaculty row d) = (case upd_faculty_facultyId d of None \<Rightarrow> faculty_facultyId row | Some v \<Rightarrow> v)"
    and "faculty_department (mergeFaculty row d) = (case upd_faculty_department d of None \<Rightarrow> faculty_department row | Some v \<Rightarrow> v)"
    and "faculty_position (mergeFaculty row d) = (case upd_faculty_position d of None \<Rightarrow> faculty_position row | Some v \<Rightarrow> v)"
    and "faculty_joinDate (mergeFaculty row d) = (case upd_faculty_joinDate d of None \<Rightarrow> faculty_joinDate row | Some v \<Rightarrow> v)"
    and "faculty_status (mergeFaculty row d) = (case upd_faculty_status d of None \<Rightarrow> faculty_status row | Some v \<Rightarrow> v)"
    and "faculty_id (mergeFaculty row d) = (case upd_faculty_id d of None \<Rightarrow> faculty_id row | Some v \<Rightarrow> v)"
  by (simp_all add: mergeFaculty_def spread_def)

lemma updateFaculty_absent:
  "getFaculty s k = None \<Longrightarrow> updateFaculty k d s = (None, s)"
  by (simp add: updateFaculty_def getFaculty_def)

lemma updateFaculty_present:
  assumes "getFaculty s k = Some row"
  shows "fst (updateFaculty k d s) = Some (mergeFaculty row d)"
    and "getFaculty (snd (updateFaculty k d s)) j = (if j = k then Some (mergeFaculty row d) else getFaculty s j)"
    and "(snd (updateFaculty k d s))\<lparr>faculty := faculty s\<rparr> = s"
    and "map_keys (faculty (snd (updateFaculty k d s))) = map_keys (faculty s)"
  using assms
  by (simp_all add: updateFaculty_def getFaculty_def Let_def map_get_set map_keys_set_present map_has_get)

lemma mergeCourse_fields:
  shows "course_code (mergeCourse row d) = (case upd_course_code d of None \<Rightarrow> course_code row | Some v \<Rightarrow> v)"
    and "course_title (mergeCourse row d) = (case upd_course_title d of None \<Rightarrow> course_title row | Some v \<Rightarrow> v)"
    and "course_description (mergeCourse row d) = (case upd_course_description d of None \<Rightarrow> course_description row | Some v \<Rightarrow> v)"
    and "course_credits (mergeCourse row d) = (case upd_course_credits d of None \<Rightarrow> course_credits row | Some v \<Rightarrow> v)"
    and "course_department (mergeCourse row d) = (case upd_course_department d of None \<Rightarrow> course_department row | Some v \<Rightarrow> v)"
    and "course_status (mergeCourse row d) = (case upd_course_status d of None \<Rightarrow> course_status row | Some v \<Rightarrow> v)"
    and "course_id (mergeCourse row d) = (case upd_course_id d of None \<Rightarrow> course_id row | Some v \<Rightarrow> v)"
  by (simp_all add: mergeCourse_def spread_def)

lemma updateCourse_absent:
  "getCourse s k = None \<Longrightarrow> updateCourse k d s = (None, s)"
  by (simp add: updateCourse_def getCourse_def)

lemma updateCourse_present:
  assumes "getCourse s k = Some row"
  shows "fst (updateCourse k d s) = Some (mergeCourse row d)"
    and "getCourse (snd (updateCourse k d s)) j = (if j = k then Some (mergeCourse row d) else getCourse s j)"
    and "(snd (updateCourse k d s))\<lparr>courses := courses s\<rparr> = s"
    and "map_keys (courses (snd (updateCourse k d s))) = map_keys (courses s)"
  using assms
  by (simp_all add: updateCourse_def getCourse_def Let_def map_get_set map_keys_set_present map_has_get)

lemma mergeCourseAssignment_fields:
  shows "assignment_courseId (mergeCourseAssignment row d) = (case upd_assignment_courseId d of None \<Rightarrow> assignment_courseId row | Some v \<Rightarrow> v)"
    and "assignment_facultyId (mergeCourseAssignment row d) = (case upd_assignment_facultyId d of None \<Rightarrow> assignment_facultyId row | Some v \<Rightarrow> v)"
    and "assignment_semester (mergeCourseAssignment row d) = (case upd_assignment_semester d of None \<Rightarrow> assignment_semester row | Some v \<Rightarrow> v)"
    and "assignment_year (mergeCourseAssignment row d) = (case upd_assignment_year d of None \<Rightarrow> assignment_year row | Some v \<Rightarrow> v)"
    and "assignment_id (mergeCourseAssignment row d) = (case upd_assignment_id d of None \<Rightarrow> assignment_id row | Some v \<Rightarrow> v)"
  by (simp_all add: mergeCourseAssignment_def spread_def)

lemma updateCourseAssignment_absent:
  "getCourseAssignment s k = None \<Longrightarrow> updateCourseAssignment k d s = (None, s)"
  by (simp add: updateCourseAssignment_def getCourseAssignment_def)

lemma updateCourseAssignment_present:
  assumes "getCourseAssignment s k = Some row"
  shows "fst (updateCourseAssignment k d s) = Some (mergeCourseAssignment row d)"
    and "getCourseAssignment (snd (updateCourseAssignment k d s)) j = (if j = k then Some (mergeCourseAssignment row d) else getCourseAssignment s j)"
    and "(snd (updateCourseAssignment k d s))\<lparr>courseAssignments := courseAssignments s\<rparr> = s"
    and "map_keys (courseAssignments (snd (updateCourseAssignment k d s))) = map_keys (courseAssignments s)"
  using assms
  by (simp_all add: updateCourseAssignment_def getCourseAssignment_def Let_def map_get_set map_keys_set_present map_has_get)

lemma mergeEnrollment_fields:
  shows "enrollment_studentId (mergeEnrollment row d) = (case upd_enrollment_studentId d of None \<Rightarrow> enrollment_studentId row | Some v \<Rightarrow> v)"
    and "enrollment_courseAssignmentId (mergeEnrollment row d) = (case upd_enrollment_courseAssignmentId d of None \<Rightarrow> enrollment_courseAssignmentId row | Some v \<Rightarrow> v)"
    and "enrollment_enrollmentDate (mergeEnrollment row d) = (case upd_enrollment_enrollmentDate d of None \<Rightarrow> enrollment_enrollmentDate row | Some v \<Rightarrow> v)"
    and "enrollment_status (mergeEnrollment row d) = (case upd_enrollment_status d of None \<Rightarrow> enrollment_status row | Some v \<Rightarrow> v)"
    and "enrollment_id (mergeEnrollment row d) = (case upd_enrollment_id d of None \<Rightarrow> enrollment_id row | Some v \<Rightarrow> v)"
  by (simp_all add: mergeEnrollment_def spread_def)

lemma updateEnrollment_absent:
  "getEnrollment s k = None \<Longrightarrow> updateEnrollment k d s = (None, s)"
  by (simp add: updateEnrollment_def getEnrollment_def)

lemma updateEnrollment_present:
  assumes "getEnrollment s k = Some row"
  shows "fst (updateEnrollment k d s) = Some (mergeEnrollment row d)"
    and "getEnrollment (snd (updateEnrollment k d s)) j = (if j = k then Some (mergeEnrollment row d) else getEnrollment s j)"
    and "(snd (updateEnrollment k d s))\<lparr>enrollments := enrollments s\<rparr> = s"
    and "map_keys (enrollments (snd (updateEnrollment k d s))) = map_keys (enrollments s)"
  using assms
  by (simp_all add: updateEnrollment_def getEnrollment_def Let_def map_get_set map_keys_set_present map_has_get)

lemma mergeAttendance_fields:
  shows "attendance_enrollmentId (mergeAttendance row d) = (case upd_attendance_enrollmentId d of None \<Rightarrow> attendance_enrollmentId row | Some v \<Rightarrow> v)"
    and "attendance_date (mergeAttendance row d) = (case upd_attendance_date d of None \<Rightarrow> attendance_date row | Some v \<Rightarrow> v)"
    and "attendance_status (mergeAttendance row d) = (case upd_attendance_status d of None \<Rightarrow> attendance_status row | Some v \<Rightarrow> v)"
    and "attendance_notes (mergeAttendance row d) = (case upd_attendance_notes d of None \<Rightarrow> attendance_notes row | Some v \<Rightarrow> v)"
    and "attendance_id (mergeAttendance row d) = (case upd_attendance_id d of None \<Rightarrow> attendance_id row | Some v \<Rightarrow> v)"
  by (simp_all add: mergeAttendance_def spread_def)

lemma updateAttendance_absent:
  "getAttendance s k = None \<Longrightarrow> updateAttendance k d s = (None, s)"
  by (simp add: updateAttendance_def getAttendance_def)

lemma updateAttendance_present:
  assumes "getAttendance s k = Some row"
  shows "fst (updateAttendance k d s) = Some (mergeAttendance row d)"
    and "getAttendance (snd (updateAttendance k d s)) j = (if j = k then Some (mergeAttendance row d) else getAttendance s j)"
    and "(snd (updateAttendance k d s))\<lparr>attendance := attendance s\<rparr> = s"
    and "map_keys (attendance (snd (updateAttendance k d s))) = map_keys (attendance s)"
  using assms
  by (simp_all add: updateAttendance_def getAttendance_def Let_def map_get_set map_keys_set_present map_has_get)

lemma mergeGrade_fields:
  shows "grade_enrollmentId (mergeGrade row d) = (case upd_grade_enrollmentId d of None \<Rightarrow> grade_enrollmentId row | Some v \<Rightarrow> v)"
    and "grade_assignmentName (mergeGrade row d) = (case upd_grade_assignmentName d of None \<Rightarrow> grade_assignmentName row | Some v \<Rightarrow> v)"
    and "grade_score (mergeGrade row d) = (case upd_grade_score d of None \<Rightarrow> grade_score row | Some v \<Rightarrow> v)"
    and "grade_maxScore (mergeGrade row d) = (case upd_grade_maxScore d of None \<Rightarrow> grade_maxScore row | Some v \<Rightarrow> v)"
    and "grade_weight (mergeGrade row d) = (case upd_grade_weight d of None \<Rightarrow> grade_weight row | Some v \<Rightarrow> v)"
    and "grade_date (mergeGrade row d) = (case upd_grade_date d of None \<Rightarrow> grade_date row | Some v \<Rightarrow> v)"
    and "grade_id (mergeGrade row d) = (case upd_grade_id d of None \<Rightarrow> grade_id row | Some v \<Rightarrow> v)"
  by (simp_all add: mergeGrade_def spread_def)

lemma updateGrade_absent:
  "getGrade s k = None \<Longrightarrow> updateGrade k d s = (None, s)"
  by (simp add: updateGrade_def getGrade_def)

lemma updateGrade_present:
  assumes "getGrade s k = Some row"
  shows "fst (updateGrade k d s) = Some (mergeGrade row d)"
    and "getGrade (snd (updateGrade k d s)) j = (if j = k then Some (mergeGrade row d) else getGrade s j)"
    and "(snd (updateGrade k d s))\<lparr>grades := grades s\<rparr> = s"
    and "map_keys (grades (snd (updateGrade k d s))) = map_keys (grades s)"
  using assms
  by (simp_all add: updateGrade_def getGrade_def Let_def map_get_set map_keys_set_present map_has_get)

lemma mergeEvent_fields:
  shows "event_title (mergeEvent row d) = (case upd_event_title d of None \<Rightarrow> event_title row | Some v \<Rightarrow> v)"
    and "event_description (mergeEvent row d) = (case upd_event_description d of None \<Rightarrow> event_description row | Some v \<Rightarrow> v)"
    and "event_startDate (mergeEvent row d) = (case upd_event_startDate d of None \<Rightarrow> event_startDate row | Some v \<Rightarrow> v)"
    and "event_endDate (mergeEvent row d) = (case upd_event_endDate d of None \<Rightarrow> event_endDate row | Some v \<Rightarrow> v)"
    and "event_location (mergeEvent row d) = (case upd_event_location d of None \<Rightarrow> event_location row | Some v \<Rightarrow> v)"
    and "event_type (mergeEvent row d) = (case upd_event_type d of None \<Rightarrow> event_type row | Some v \<Rightarrow> v)"
    and "event_id (mergeEvent row d) = (case upd_event_id d of None \<Rightarrow> event_id row | Some v \<Rightarrow> v)"
  by (simp_all add: mergeEvent_def spread_def)

lemma updateEvent_absent:
  "getEvent s k = None \<Longrightarrow> updateEvent k d s = (None, s)"
  by (simp add: updateEvent_def getEvent_def)

lemma updateEvent_present:
  assumes "getEvent s k = Some row"
  shows "fst (updateEvent k d s) = Some (mergeEvent row d)"
    and "getEvent (snd (updateEvent k d s)) j = (if j = k then Some (mergeEvent row d) else getEvent s j)"
    and "(snd (updateEvent k d s))\<lparr>events := events s\<rparr> = s"
    and "map_keys (events (snd (updateEvent k d s))) = map_keys (events s)"
  using assms
  by (simp_all add: updateEvent_def getEvent_def Let_def map_get_set map_keys_set_present map_has_get)

text \<open>
  Claim C5. For each of the nine tables: \<^verbatim>\<open>update\<close> on an id that is not stored returns
  \<^verbatim>\<open>undefined\<close> and leaves the store as it was. On a stored id it returns the merged row,
  stores it under the same key at the same place in the iteration order, leaves every
  other row of the table and every other table and counter as they were, and the merged
  row has, field by field, the supplied value where the partial supplies one and the
  old value where it does not.
\<close>

theorem update_merges_supplied_fields:
  "(getUser s k0 = None \<longrightarrow> updateUser k0 du s = (None, s))
     \<and> (getUser s k = Some u \<longrightarrow>
        fst (updateUser k du s) = Some (mergeUser u du)
        \<and> getUser (snd (updateUser k du s)) j = (if j = k then Some (mergeUser u du) else getUser s j)
        \<and> (snd (updateUser k du s))\<lparr>users := users s\<rparr> = s
        \<and> map_keys (users (snd (updateUser k du s))) = map_keys (users s))
     \<and> (user_username (mergeUser u du) = (case upd_user_username du of None \<Rightarrow> user_username u | Some x \<Rightarrow> x)
        \<and> user_password (mergeUser u du) = (case upd_user_password du of None \<Rightarrow> user_password u | Some x \<Rightarrow> x)
        \<and> user_email (mergeUser u du) = (case upd_user_email du of None \<Rightarrow> user_email u | Some x \<Rightarrow> x)
        \<and> user_role (mergeUser u du) = (case upd_user_role du of None \<Rightarrow> user_role u | Some x \<Rightarrow> x)
        \<and> user_name (mergeUser u du) = (case upd_user_name du of None \<Rightarrow> user_name u | Some x \<Rightarrow> x)
        \<and> user_profileImage (mergeUser u du) = (case upd_user_profileImage du of None \<Rightarrow> user_profileImage u | Some x \<Rightarrow> x)
        \<and> user_id (mergeUser u du) = (case upd_user_id du of None \<Rightarrow> user_id u | Some x \<Rightarrow> x))
     \<and> (getStudent s k0 = None \<longrightarrow> updateStudent k0 dst s = (None, s))
     \<and> (getStudent s k = Some st \<longrightarrow>
        fst (updateStudent k dst s) = Some (mergeStudent st dst)
        \<and> getStudent (snd (updateStudent k dst s)) j = (if j = k then Some (mergeStudent st dst) else getStudent s j)
        \<and> (snd (updateStudent k dst s))\<lparr>students := students s\<rparr> = s
        \<and> map_keys (students (snd (updateStudent k dst s))) = map_keys (students s))
     \<and> (student_userId (mergeStudent st dst) = (case upd_student_userId dst of None \<Rightarrow> student_userId st | Some x \<Rightarrow> x)
        \<and> student_studentId (mergeStudent st dst) = (case upd_student_studentId dst of None \<Rightarrow> student_studentId st | Some x \<Rightarrow> x)
        \<and> student_program (mergeStudent st dst) = (case upd_student_program dst of None \<Rightarrow> student_program st | Some x \<Rightarrow> x)
        \<and> student_yearLevel (mergeStudent st dst) = (case upd_student_yearLevel dst of None \<Rightarrow> student_yearLevel st | Some x \<Rightarrow> x)
        \<and> student_status (mergeStudent st dst) = (case upd_student_status dst of None \<Rightarrow> student_status st | Some x \<Rightarrow> x)
        \<and> student_enrollmentDate (mergeStudent st dst) = (case upd_student_enrollmentDate dst of None \<Rightarrow> student_enrollmentDate st | Some x \<Rightarrow> x)
        \<and> student_id (mergeStudent st dst) = (case upd_student_id dst of None \<Rightarrow> student_id st | Some x \<Rightarrow> x))
     \<and> (getFaculty s k0 = None \<longrightarrow> updateFaculty k0 df s = (None, s))
     \<and> (getFaculty s k = Some f \<longrightarrow>
        fst (updateFaculty k df s) = Some (mergeFaculty f df)
        \<and> getFaculty (snd (updateFaculty k df s)) j = (if j = k then Some (mergeFaculty f df) else getFaculty s j)
        \<and> (snd (updateFaculty k df s))\<lparr>faculty := faculty s\<rparr> = s
        \<and> map_keys (faculty (snd (updateFaculty k df s))) = map_keys (faculty s))
     \<and> (faculty_userId (mergeFaculty f df) = (case upd_faculty_userId df of None \<Rightarrow> faculty_userId f | Some x \<Rightarrow> x)
        \<and> faculty_facultyId (mergeFaculty f df) = (case upd_faculty_facultyId df of None \<Rightarrow> faculty_facultyId f | Some x \<Rightarrow> x)
        \<and> faculty_department (mergeFaculty f df) = (case upd_faculty_department df of None \<Rightarrow> faculty_department f | Some x \<Rightarrow> x)
        \<and> faculty_position (mergeFaculty f df) = (case upd_faculty_position df of None \<Rightarrow> faculty_position f | Some x \<Rightarrow> x)
        \<and> faculty_joinDate (mergeFaculty f df) = (case upd_faculty_joinDate df of None \<Rightarrow> faculty_joinDate f | Some x \<Rightarrow> x)
        \<and> faculty_status (mergeFaculty f df) = (case upd_faculty_status df of None \<Rightarrow> faculty_status f | Some x \<Rightarrow> x)
        \<and> faculty_id (mergeFaculty f df) = (case upd_faculty_id df of None \<Rightarrow> faculty_id f | Some x \<Rightarrow> x))
     \<and> (getCourse s k0 = None \<longrightarrow> updateCourse k0 dc s = (None, s))
     \<and> (getCourse s k = Some c \<longrightarrow>
        fst (updateCourse k dc s) = Some (mergeCourse c dc)
        \<and> getCourse (snd (updateCourse k dc s)) j = (if j = k then Some (mergeCourse c dc) else getCourse s j)
        \<and> (snd (updateCourse k dc s))\<lparr>courses := courses s\<rparr> = s
        \<and> map_keys (courses (snd (updateCourse k dc s))) = map_keys (courses s))
     \<and> (course_code (mergeCourse c dc) = (case upd_course_code dc of None \<Rightarrow> course_code c | Some x \<Rightarrow> x)
        \<and> course_title (mergeCourse c dc) = (case upd_course_title dc of None \<Rightarrow> course_title c | Some x \<Rightarrow> x)
        \<and> course_description (mergeCourse c dc) = (case upd_course_description dc of None \<Rightarrow> course_description c | Some x \<Rightarrow> x)
        \<and> course_credits (mergeCourse c dc) = (case upd_course_credits dc of None \<Rightarrow> course_credits c | Some x \<Rightarrow> x)
        \<and> course_department (mergeCourse c dc) = (case upd_course_department dc of None \<Rightarrow> course_department c | Some x \<Rightarrow> x)
        \<and> course_status (mergeCourse c dc) = (case upd_course_status dc of None \<Rightarrow> course_status c | Some x \<Rightarrow> x)
        \<and> course_id (mergeCourse c dc) = (case upd_course_id dc of None \<Rightarrow> course_id c | Some x \<Rightarrow> x))
     \<and> (getCourseAssignment s k0 = None \<longrightarrow> updateCourseAssignment k0 da s = (None, s))
     \<and> (getCourseAssignment s k = Some a \<longrightarrow>
        fst (updateCourseAssignment k da s) = Some (mergeCourseAssignment a da)
        \<and> getCourseAssignment (snd (updateCourseAssignment k da s)) j = (if j = k then Some (mergeCourseAssignment a da) else getCourseAssignment s j)
        \<and> (snd (updateCourseAssignment k da s))\<lparr>courseAssignments := courseAssignments s\<rparr> = s
        \<and> map_keys (courseAssignments (snd (updateCourseAssignment k da s))) = map_keys (courseAssignments s))
     \<and> (assignment_courseId (mergeCourseAssignment a da) = (case upd_assignment_courseId da of None \<Rightarrow> assignment_courseId a | Some x \<Rightarrow> x)
        \<and> assignment_facultyId (mergeCourseAssignment a da) = (case upd_assignment_facultyId da of None \<Rightarrow> assignment_facultyId a | Some x \<Rightarrow> x)
        \<and> assignment_semester (mergeCourseAssignment a da) = (case upd_assignment_semester da of None \<Rightarrow> assignment_semester a | Some x \<Rightarrow> x)
        \<and> assignment_year (mergeCourseAssignment a da) = (case upd_assignment_year da of None \<Rightarrow> assignment_year a | Some x \<Rightarrow> x)
        \<and> assignment_id (mergeCourseAssignment a da) = (case upd_assignment_id da of None \<Rightarrow> assignment_id a | Some x \<Rightarrow> x))
     \<and> (getEnrollment s k0 = None \<longrightarrow> updateEnrollment k0 den s = (None, s))
     \<and> (getEnrollment s k = Some en \<longrightarrow>
        fst (updateEnrollment k den s) = Some (mergeEnrollment en den)
        \<and> getEnrollment (snd (updateEnrollment k den s)) j = (if j = k then Some (mergeEnrollment en den) else getEnrollment s j)
        \<and> (snd (updateEnrollment k den s))\<lparr>enrollments := enrollments s\<rparr> = s
        \<and> map_keys (enrollments (snd (updateEnrollment k den s))) = map_keys (enrollments s))
     \<and> (enrollment_studentId (mergeEnrollment en den) = (case upd_enrollment_studentId den of None \<Rightarrow> enrollment_studentId en | Some x \<Rightarrow> x)
        \<and> enrollment_courseAssignmentId (mergeEnrollment en den) = (case upd_enrollment_courseAssignmentId den of None \<Rightarrow> enrollment_courseAssignmentId en | Some x \<Rightarrow> x)
        \<and> enrollment_enrollmentDate (mergeEnrollment en den) = (case upd_enrollment_enrollmentDate den of None \<Rightarrow> enrollment_enrollmentDate en | Some x \<Rightarrow> x)
        \<and> enrollment_status (mergeEnrollment en den) = (case upd_enrollment_status den of None \<Rightarrow> enrollment_status en | Some x \<Rightarrow> x)
        \<and> enrollment_id (mergeEnrollment en den) = (case upd_enrollment_id den of None \<Rightarrow> enrollment_id en | Some x \<Rightarrow> x))
     \<and> (getAttendance s k0 = None \<longrightarrow> updateAttendance k0 datt s = (None, s))
     \<and> (getAttendance s k = Some att \<longrightarrow>
        fst (updateAttendance k datt s) = Some (mergeAttendance att datt)
        \<and> getAttendance (snd (updateAttendance k datt s)) j = (if j = k then Some (mergeAttendance att datt) else getAttendance s j)
        \<and> (snd (updateAttendance k datt s))\<lparr>attendance := attendance s\<rparr> = s
        \<and> map_keys (attendance (snd (updateAttendance k datt s))) = map_keys (attendance s))
     \<and> (attendance_enrollmentId (mergeAttendance att datt) = (case upd_attendance_enrollmentId datt of None \<Rightarrow> attendance_enrollmentId att | Some x \<Rightarrow> x)
        \<and> attendance_date (mergeAttendance att datt) = (case upd_attendance_date datt of None \<Rightarrow> attendance_date att | Some x \<Rightarrow> x)
        \<and> attendance_status (mergeAttendance att datt) = (case upd_attendance_status datt of None \<Rightarrow> attendance_status att | Some x \<Rightarrow> x)
        \<and> attendance_notes (mergeAttendance att datt) = (case upd_attendance_notes datt of None \<Rightarrow> attendance_notes att | Some x \<Rightarrow> x)
        \<and> attendance_id (mergeAttendance att datt) = (case upd_attendance_id datt of None \<Rightarrow> attendance_id att | Some x \<Rightarrow> x))
     \<and> (getGrade s k0 = None \<longrightarrow> updateGrade k0 dg s = (None, s))
     \<and> (getGrade s k = Some g \<longrightarrow>
        fst (updateGrade k dg s) = Some (mergeGrade g dg)
        \<and> getGrade (snd (updateGrade k dg s)) j = (if j = k then Some (mergeGrade g dg) else getGrade s j)
        \<and> (snd (updateGrade k dg s))\<lparr>grades := grades s\<rparr> = s
        \<and> map_keys (grades (snd (updateGrade k dg s))) = map_keys (grades s))
     \<and> (grade_enrollmentId (mergeGrade g dg) = (case upd_grade_enrollmentId dg of None \<Rightarrow> grade_enrollmentId g | Some x \<Rightarrow> x)
        \<and> grade_assignmentName (mergeGrade g dg) = (case upd_grade_assignmentName dg of None \<Rightarrow> grade_assignmentName g | Some x \<Rightarrow> x)
        \<and> grade_score (mergeGrade g dg) = (case upd_grade_score dg of None \<Rightarrow> grade_score g | Some x \<Rightarrow> x)
        \<and> grade_maxScore (mergeGrade g dg) = (case upd_grade_maxScore dg of None \<Rightarrow> grade_maxScore g | Some x \<Rightarrow> x)
        \<and> grade_weight (mergeGrade g dg) = (case upd_grade_weight dg of None \<Rightarrow> grade_weight g | Some x \<Rightarrow> x)
        \<and> grade_date (mergeGrade g dg) = (case upd_grade_date dg of None \<Rightarrow> grade_date g | Some x \<Rightarrow> x)
        \<and> grade_id (mergeGrade g dg) = (case upd_grade_id dg of None \<Rightarrow> grade_id g | Some x \<Rightarrow> x))
     \<and> (getEvent s k0 = None \<longrightarrow> updateEvent k0 dev s = (None, s))
     \<and> (getEvent s k = Some ev \<longrightarrow>
        fst (updateEvent k dev s) = Some (mergeEvent ev dev)
        \<and> getEvent (snd (updateEvent k dev s)) j = (if j = k then Some (mergeEvent ev dev) else getEvent s j)
        \<and> (snd (updateEvent k dev s))\<lparr>events := events s\<rparr> = s
        \<and> map_keys (events (snd (updateEvent k dev s))) = map_keys (events s))
     \<and> (event_title (mergeEvent ev dev) = (case upd_event_title dev of None \<Rightarrow> event_title ev | Some x \<Rightarrow> x)
        \<and> event_description (mergeEvent ev dev) = (case upd_event_description dev of None \<Rightarrow> event_description ev | Some x \<Rightarrow> x)
        \<and> event_startDate (mergeEvent ev dev) = (case upd_event_startDate dev of None \<Rightarrow> event_startDate ev | Some x \<Rightarrow> x)
        \<and> event_endDate (mergeEvent ev dev) = (case upd_event_endDate dev of None \<Rightarrow> event_endDate ev | Some x \<Rightarrow> x)
        \<and> event_location (mergeEvent ev dev) = (case upd_event_location dev of None \<Rightarrow> event_location ev | Some x \<Rightarrow> x)
        \<and> event_type (mergeEvent ev dev) = (case upd_event_type dev of None \<Rightarrow> event_type ev | Some x \<Rightarrow> x)
        \<and> event_id (mergeEvent ev dev) = (case upd_event_id dev of None \<Rightarrow> event_id ev | Some x \<Rightarrow> x))"
  by (simp add: updateUser_absent updateUser_present mergeUser_fields updateStudent_absent updateStudent_present mergeStudent_fields updateFaculty_absent updateFaculty_present mergeFaculty_fields updateCourse_absent updateCourse_present mergeCourse_fields updateCourseAssignment_absent updateCourseAssignment_present mergeCourseAssignment_fields updateEnrollment_absent updateEnrollment_present mergeEnrollment_fields updateAttendance_absent updateAttendance_present mergeAttendance_fields updateGrade_absent updateGrade_present mergeGrade_fields updateEvent_absent updateEvent_present mergeEvent_fields)

lemmas patch_defs = userPatch_def studentPatch_def facultyPatch_def coursePatch_def assignmentPatch_def enrollmentPatch_def attendancePatch_def gradePatch_def eventPatch_def

lemmas merge_defs = mergeUser_def mergeStudent_def mergeFaculty_def mergeCourse_def mergeCourseAssignment_def mergeEnrollment_def mergeAttendance_def mergeGrade_def mergeEvent_def

text \<open>
  On the demo store: id 9 is stored in no table and every update of it returns
  \<^verbatim>\<open>undefined\<close>; id 1 is stored in every table, and each one-field partial changes
  that field of row 1 and nothing else (the course becomes \<^verbatim>\<open>archived\<close>, say).
\<close>

theorem update_merges_supplied_fields_witness:
  "getUser demoStore 9 = None
   \<and> getUser demoStore 1 = Some (InsertUser.extend adminUser (User.fields 1))
   \<and> fst (updateUser 1 userPatch demoStore)
       = Some (InsertUser.extend (adminUser\<lparr>user_email := ''root@college.edu''\<rparr>) (User.fields 1))
   \<and> getUser (snd (updateUser 1 userPatch demoStore)) 1 = fst (updateUser 1 userPatch demoStore)
   \<and> getStudent demoStore 9 = None
   \<and> getStudent demoStore 1 = Some (InsertStudent.extend studentProfile1 (Student.fields 1))
   \<and> fst (updateStudent 1 studentPatch demoStore)
       = Some (InsertStudent.extend (studentProfile1\<lparr>student_yearLevel := 4\<rparr>) (Student.fields 1))
   \<and> getStudent (snd (updateStudent 1 studentPatch demoStore)) 1 = fst (updateStudent 1 studentPatch demoStore)
   \<and> getFaculty demoStore 9 = None
   \<and> getFaculty demoStore 1 = Some (InsertFaculty.extend facultyProfile1 (Faculty.fields 1))
   \<and> fst (updateFaculty 1 facultyPatch demoStore)
       = Some (InsertFaculty.extend (facultyProfile1\<lparr>faculty_position := ''Dean''\<rparr>) (Faculty.fields 1))
   \<and> getFaculty (snd (updateFaculty 1 facultyPatch demoStore)) 1 = fst (updateFaculty 1 facultyPatch demoStore)
   \<and> getCourse demoStore 9 = None
   \<and> getCourse demoStore 1 = Some (InsertCourse.extend course1 (Course.fields 1))
   \<and> fst (updateCourse 1 coursePatch demoStore)
       = Some (InsertCourse.extend (course1\<lparr>course_status := ''archived''\<rparr>) (Course.fields 1))
   \<and> getCourse (snd (updateCourse 1 coursePatch demoStore)) 1 = fst (updateCourse 1 coursePatch demoStore)
   \<and> getCourseAssignment demoStore 9 = None
   \<and> getCourseAssignment demoStore 1 = Some (InsertCourseAssignment.extend (assignmentIn 1 ''Fall'' 2023) (CourseAssignment.fields 1))
   \<and> fst (updateCourseAssignment 1 assignmentPatch demoStore)
       = Some (InsertCourseAssignment.extend ((assignmentIn 1 ''Fall'' 2023)\<lparr>assignment_semester := ''Winter''\<rparr>) (CourseAssignment.fields 1))
   \<and> getCourseAssignment (snd (updateCourseAssignment 1 assignmentPatch demoStore)) 1 = fst (updateCourseAssignment 1 assignmentPatch demoStore)
   \<and> getEnrollment demoStore 9 = None
   \<and> getEnrollment demoStore 1 = Some (InsertEnrollment.extend (enrollmentIn 1 1) (Enrollment.fields 1))
   \<and> fst (updateEnrollment 1 enrollmentPatch demoStore)
       = Some (InsertEnrollment.extend ((enrollmentIn 1 1)\<lparr>enrollment_status := ''dropped''\<rparr>) (Enrollment.fields 1))
   \<and> getEnrollment (snd (updateEnrollment 1 enrollmentPatch demoStore)) 1 = fst (updateEnrollment 1 enrollmentPatch demoStore)
   \<and> getAttendance demoStore 9 = None
   \<and> getAttendance demoStore 1 = Some (InsertAttendance.extend (attendanceOf 1 ''present'') (Attendance.fields 1))
   \<and> fst (updateAttendance 1 attendancePatch demoStore)
       = Some (InsertAttendance.extend ((attendanceOf 1 ''present'')\<lparr>attendance_status := ''excused''\<rparr>) (Attendance.fields 1))
   \<and> getAttendance (snd (updateAttendance 1 attendancePatch demoStore)) 1 = fst (updateAttendance 1 attendancePatch demoStore)
   \<and> getGrade demoStore 9 = None
   \<and> getGrade demoStore 1 = Some (InsertGrade.extend grade1 (Grade.fields 1))
   \<and> fst (updateGrade 1 gradePatch demoStore)
       = Some (InsertGrade.extend (grade1\<lparr>grade_score := 90\<rparr>) (Grade.fields 1))
   \<and> getGrade (snd (updateGrade 1 gradePatch demoStore)) 1 = fst (updateGrade 1 gradePatch demoStore)
   \<and> getEvent demoStore 9 = None
   \<and> getEvent demoStore 1 = Some (InsertEvent.extend (eventAt ''Faculty Meeting'' 1700000000000) (Event.fields 1))
   \<and> fst (updateEvent 1 eventPatch demoStore)
       = Some (InsertEvent.extend ((eventAt ''Faculty Meeting'' 1700000000000)\<lparr>event_location := None\<rparr>) (Event.fields 1))
   \<and> getEvent (snd (updateEvent 1 eventPatch demoStore)) 1 = fst (updateEvent 1 eventPatch demoStore)"
proof -
  have absent:
    "getUser demoStore 9 = None"
    "getStudent demoStore 9 = None"
    "getFaculty demoStore 9 = None"
    "getCourse demoStore 9 = None"
    "getCourseAssignment demoStore 9 = None"
    "getEnrollment demoStore 9 = None"
    "getAttendance demoStore 9 = None"
    "getGrade demoStore 9 = None"
    "getEvent demoStore 9 = None"
    by (simp_all add: get_defs map_get_def demoStore_tables)
  have present:
    "getUser demoStore 1 = Some (InsertUser.extend adminUser (User.fields 1))"
    "getStudent demoStore 1 = Some (InsertStudent.extend studentProfile1 (Student.fields 1))"
    "getFaculty demoStore 1 = Some (InsertFaculty.extend facultyProfile1 (Faculty.fields 1))"
    "getCourse demoStore 1 = Some (InsertCourse.extend course1 (Course.fields 1))"
    "getCourseAssignment demoStore 1 = Some (InsertCourseAssignment.extend (assignmentIn 1 ''Fall'' 2023) (CourseAssignment.fields 1))"
    "getEnrollment demoStore 1 = Some (InsertEnrollment.extend (enrollmentIn 1 1) (Enrollment.fields 1))"
    "getAttendance demoStore 1 = Some (InsertAttendance.extend (attendanceOf 1 ''present'') (Attendance.fields 1))"
    "getGrade demoStore 1 = Some (InsertGrade.extend grade1 (Grade.fields 1))"
    "getEvent demoStore 1 = Some (InsertEvent.extend (eventAt ''Faculty Meeting'' 1700000000000) (Event.fields 1))"
    by (simp_all add: get_defs map_get_def demoStore_tables)
  have merged:
    "mergeUser (InsertUser.extend adminUser (User.fields 1)) userPatch = InsertUser.extend (adminUser\<lparr>user_email := ''root@college.edu''\<rparr>) (User.fields 1)"
    "mergeStudent (InsertStudent.extend studentProfile1 (Student.fields 1)) studentPatch = InsertStudent.extend (studentProfile1\<lparr>student_yearLevel := 4\<rparr>) (Student.fields 1)"
    "mergeFaculty (InsertFaculty.extend facultyProfile1 (Faculty.fields 1)) facultyPatch = InsertFaculty.extend (facultyProfile1\<lparr>faculty_position := ''Dean''\<rparr>) (Faculty.fields 1)"
    "mergeCourse (InsertCourse.extend course1 (Course.fields 1)) coursePatch = InsertCourse.extend (course1\<lparr>course_status := ''archived''\<rparr>) (Course.fields 1)"
    "mergeCourseAssignment (InsertCourseAssignment.extend (assignmentIn 1 ''Fall'' 2023) (CourseAssignment.fields 1)) assignmentPatch = InsertCourseAssignment.extend ((assignmentIn 1 ''Fall'' 2023)\<lparr>assignment_semester := ''Winter''\<rparr>) (CourseAssignment.fields 1)"
    "mergeEnrollment (InsertEnrollment.extend (enrollmentIn 1 1) (Enrollment.fields 1)) enrollmentPatch = InsertEnrollment.extend ((enrollmentIn 1 1)\<lparr>enrollment_status := ''dropped''\<rparr>) (Enrollment.fields 1)"
    "mergeAttendance (InsertAttendance.extend (attendanceOf 1 ''present'') (Attendance.fields 1)) attendancePatch = InsertAttendance.extend ((attendanceOf 1 ''present'')\<lparr>attendance_status := ''excused''\<rparr>) (Attendance.fields 1)"
    "mergeGrade (InsertGrade.extend grade1 (Grade.fields 1)) gradePatch = InsertGrade.extend (grade1\<lparr>grade_score := 90\<rparr>) (Grade.fields 1)"
    "mergeEvent (InsertEvent.extend (eventAt ''Faculty Meeting'' 1700000000000) (Event.fields 1)) eventPatch = InsertEvent.extend ((eventAt ''Faculty Meeting'' 1700000000000)\<lparr>event_location := None\<rparr>) (Event.fields 1)"
    by (simp_all add: merge_defs spread_def patch_defs row_defs sample_defs)
  note upd = update_merges_supplied_fields [where s = demoStore and ?k0.0 = 9 and k = 1 and j = 1
      and u = "InsertUser.extend adminUser (User.fields 1)" and du = userPatch
      and st = "InsertStudent.extend studentProfile1 (Student.fields 1)" and dst = studentPatch
      and f = "InsertFaculty.extend facultyProfile1 (Faculty.fields 1)" and df = facultyPatch
      and c = "InsertCourse.extend course1 (Course.fields 1)" and dc = coursePatch
      and a = "InsertCourseAssignment.extend (assignmentIn 1 ''Fall'' 2023) (CourseAssignment.fields 1)" and da = assignmentPatch
      and en = "InsertEnrollment.extend (enrollmentIn 1 1) (Enrollment.fields 1)" and den = enrollmentPatch
      and att = "InsertAttendance.extend (attendanceOf 1 ''present'') (Attendance.fields 1)" and datt = attendancePatch
      and g = "InsertGrade.extend grade1 (Grade.fields 1)" and dg = gradePatch
      and ev = "InsertEvent.extend (eventAt ''Faculty Meeting'' 1700000000000) (Event.fields 1)" and dev = eventPatch]
  show ?thesis
    using absent present merged upd by simp
qed

subsection \<open>Rows and the keys they are stored under\<close>

lemma keyed_by_id_set:
  "keyed_by_id id_of m \<Longrightarrow> id_of v = k \<Longrightarrow> keyed_by_id id_of (map_set k v m)"
  by (induction m) (auto simp: keyed_by_id_def)

lemma keyed_by_id_delete: "keyed_by_id id_of m \<Longrightarrow> keyed_by_id id_of (map_delete k m)"
  by (auto simp: keyed_by_id_def map_delete_def list_all_iff)

lemma keyed_by_id_get:
  "keyed_by_id id_of m \<Longrightarrow> map_get m k = Some v \<Longrightarrow> id_of v = k"
proof -
  assume keyed: "keyed_by_id id_of m" and got: "map_get m k = Some v"
  have "(k, v) \<in> set m"
    using got by (simp add: map_get_def map_of_SomeD)
  then show "id_of v = k"
    using keyed by (fastforce simp: keyed_by_id_def list_all_iff)
qed

lemma createUser_keyed:
  "keyed_by_id user_id (users s) \<Longrightarrow> keyed_by_id user_id (users (snd (createUser r s)))"
  by (simp add: createUser_def Let_def keyed_by_id_set InsertUser.defs User.defs)

lemma deleteUser_keyed:
  "keyed_by_id user_id (users s) \<Longrightarrow> keyed_by_id user_id (users (snd (deleteUser k s)))"
  by (simp add: deleteUser_def keyed_by_id_delete)

lemma updateUser_keyed_without_id:
  assumes "keyed_by_id user_id (users s)" and "upd_user_id d = None \<or> upd_user_id d = Some k"
  shows "keyed_by_id user_id (users (snd (updateUser k d s)))"
proof (cases "map_get (users s) k")
  case None
  then show ?thesis
    using assms(1) by (simp add: updateUser_def)
next
  case (Some row)
  have "user_id row = k"
    using assms(1) Some by (rule keyed_by_id_get)
  then have "user_id (mergeUser row d) = k"
    using assms(2) by (auto simp: mergeUser_def spread_def)
  then show ?thesis
    using assms(1) Some by (simp add: updateUser_def Let_def keyed_by_id_set)
qed

text \<open>
  Claim C10. Create and delete keep every row's \<^verbatim>\<open>id\<close> equal to its key, and so does an
  update whose partial leaves the \<^verbatim>\<open>id\<close> out or repeats the key (the three lemmas above,
  for the user table). An update whose partial supplies another \<^verbatim>\<open>id\<close> does not: the
  spread \<^verbatim>\<open>{ ...user, ...userData }\<close> lets the partial's \<^verbatim>\<open>id\<close> win, and the row is stored
  under the old key. On the demo store, \<^verbatim>\<open>updateUser(1, { id: 999 })\<close> leaves under key 1 a
  row whose \<^verbatim>\<open>id\<close> is 999, and nothing under key 999.
\<close>

theorem update_with_id_breaks_keying:
  "keyed_by_id user_id (users demoStore)
   \<and> fst (updateUser 1 idPatch demoStore) = Some (InsertUser.extend adminUser (User.fields 999))
   \<and> getUser (snd (updateUser 1 idPatch demoStore)) 1
       = Some (InsertUser.extend adminUser (User.fields 999))
   \<and> getUser (snd (updateUser 1 idPatch demoStore)) 999 = None
   \<and> \<not> keyed_by_id user_id (users (snd (updateUser 1 idPatch demoStore)))"
  by (simp add: keyed_by_id_def updateUser_def getUser_def map_get_def Let_def demoStore_tables
      mergeUser_def spread_def idPatch_def row_defs sample_defs)

subsection \<open>Student details\<close>









subsection \<open>Sorting with a comparator that subtracts keys\<close>

lemma insert_cmp_key:
  "insert_cmp (\<lambda>a b. key a - key b) x ys = insort_key key x ys"
  by (induction ys) simp_all

lemma sort_cmp_key: "sort_cmp (\<lambda>a b. key a - key b) xs = sort_key key xs"
  by (induction xs) (simp_all add: insert_cmp_key sort_key_def)

lemma sort_cmp_key_mset: "mset (sort_cmp (\<lambda>a b. key a - key b) xs) = mset xs"
  by (simp add: sort_cmp_key)

lemma sort_cmp_key_sorted: "sorted (map key (sort_cmp (\<lambda>a b. key a - key b) xs))"
  by (simp add: sort_cmp_key)

lemma sort_cmp_key_stable:
  "filter (\<lambda>x. key x = k) (sort_cmp (\<lambda>a b. key a - key b) xs) = filter (\<lambda>x. key x = k) xs"
  by (simp add: sort_cmp_key sort_key_stable)

subsection \<open>Upcoming events\<close>

text \<open>
  Claim C9. \<^verbatim>\<open>getUpcomingEvents()\<close> returns exactly the stored events whose
  \<^verbatim>\<open>startDate\<close> is strictly after the clock reading \<open>now\<close>, each as often as it is
  stored, in ascending order of \<^verbatim>\<open>startDate\<close>; events with the same \<^verbatim>\<open>startDate\<close> keep their
  stored order.
\<close>

theorem getUpcomingEvents_sorted_future:
  "mset (getUpcomingEvents now s)
     = filter_mset (\<lambda>event. now < event_startDate event) (mset (getAllEvents s))
   \<and> sorted (map event_startDate (getUpcomingEvents now s))
   \<and> (\<forall>t. filter (\<lambda>event. event_startDate event = t) (getUpcomingEvents now s)
          = filter (\<lambda>event. event_startDate event = t \<and> now < t) (getAllEvents s))"
proof (intro conjI allI)
  show "mset (getUpcomingEvents now s)
     = filter_mset (\<lambda>event. now < event_startDate event) (mset (getAllEvents s))"
    by (simp add: getUpcomingEvents_def getAllEvents_def sort_cmp_key_mset)
  show "sorted (map event_startDate (getUpcomingEvents now s))"
    unfolding getUpcomingEvents_def by (rule sort_cmp_key_sorted)
  fix t
  have "filter (\<lambda>event. event_startDate event = t) (getUpcomingEvents now s)
      = filter (\<lambda>event. event_startDate event = t)
          (filter (\<lambda>event. event_startDate event > now) (map_values (events s)))"
    unfolding getUpcomingEvents_def by (rule sort_cmp_key_stable)
  also have "\<dots> = filter (\<lambda>event. event_startDate event = t \<and> now < t) (getAllEvents s)"
    by (simp add: getAllEvents_def) (rule filter_cong, auto)
  finally show "filter (\<lambda>event. event_startDate event = t) (getUpcomingEvents now s)
          = filter (\<lambda>event. event_startDate event = t \<and> now < t) (getAllEvents s)" .
qed

text \<open>
  With the clock at 150, the event that started at 100 is left out and the other two come
  back with the sooner one first.
\<close>

lemma getUpcomingEvents_example:
  "map event_title (getAllEvents eventStore) = [''Past'', ''Later'', ''Sooner'']
   \<and> map event_title (getUpcomingEvents 150 eventStore) = [''Sooner'', ''Later'']"
  by (simp add: eventStore_def emptyStorage_def createEvent_def Let_def getAllEvents_def
      getUpcomingEvents_def map_values_def eventAt_def InsertEvent.defs Event.defs)

subsection \<open>Popular courses\<close>






subsection \<open>Lookups by user name\<close>









subsection \<open>Rounding to a double\<close>







lemma to_double_zero: "0 < b \<Longrightarrow> to_double 0 b = (0, 0)"
  by (simp add: to_double_def)














subsection \<open>Dashboard rates\<close>








text \<open>
  At an exact tie the outcome follows the double, not a fixed rule: 1 of 16 is 6.25 and
  prints as 6.3, while 3 of 2000 is a double just below 0.15 and prints as 0.1.
\<close>

lemma rate_at_ties: "toFixed1 (percentage 1 16) = 63 \<and> toFixed1 (percentage 3 2000) = 1"
  by code_simp


end
